theory Spec2Isabelle
  imports Main
begin

section \<open>Data model (types.ts)\<close>

text \<open>
  The gateway's answers are JSON values that the code reads without validating them, so
  the fields it copies from a response (\<open>title\<close>, \<open>description\<close>, the quiz, the
  challenges) are JavaScript values at run time whatever their TypeScript type says.
  \<open>JUndefined\<close> is the value of a missing property.  Numbers are never computed with, so
  they are kept as integers.  An object is the list of its own properties, as
  \<open>JSON.parse\<close> leaves them (keys distinct).
\<close>

datatype json =
    JUndefined
  | JNull
  | JBool bool
  | JNum int
  | JStr string
  | JArr "json list"
  | JObj "(string \<times> json) list"

datatype status = Locked | Unlocked | Completed

record lesson =
  lesson_id :: string
  lesson_title :: json
  lesson_description :: json
  status :: status
  content :: "string option"
  imageUrl :: "string option"
  videoUrl :: "string option"
  quiz :: "json option"
  codingChallenges :: "json option"

record module_rec =
  module_id :: string
  module_title :: json
  module_description :: json
  lessons :: "lesson list"

record course =
  course_id :: string
  topic :: string
  modules :: "module_rec list"
  currentModuleIndex :: nat
  currentLessonIndex :: nat
  createdAt :: nat

datatype appState = INITIAL | CLARIFYING | GENERATING | LEARNING | CREATIVE | PROFILE

datatype tab = TabLearn | TabCreate | TabProfile

record clarificationState =
  questions :: "string list"
  answers :: "string list"
  currentQuestionIndex :: nat

section \<open>JavaScript values\<close>

text \<open>
  What the code can throw: the error of a failed gateway call (\<open>callMistral\<close> rethrows),
  the \<open>Error\<close> that \<open>generateRoadmap\<close> and \<open>expandCourse\<close> raise when
  \<open>JSON.parse\<close> fails, and the \<open>TypeError\<close> of reading a property of \<open>null\<close> or
  \<open>undefined\<close> or of calling \<open>map\<close> on a value that has none.
\<close>

datatype error = GatewayError | ParseFailure | TypeError

text \<open>
  The outcome of \<open>callMistral\<close> in JSON mode followed by \<open>JSON.parse (cleanJson text)\<close>:
  the call fails, the text is not JSON, or a value is parsed.
\<close>

datatype reply = CallFailed | Unparsable | Parsed json

text \<open>
  \<open>v.k\<close> for the property names the code reads (\<open>title\<close>, \<open>description\<close>,
  \<open>lessons\<close>, \<open>modules\<close>, \<open>data\<close>, \<open>questions\<close>, \<open>challenges\<close>), none of which
  a primitive or an array has of its own.
\<close>

fun getprop :: "json \<Rightarrow> string \<Rightarrow> error + json" where
  "getprop JUndefined k = Inl TypeError"
| "getprop JNull k = Inl TypeError"
| "getprop (JObj kvs) k = Inr (case map_of kvs k of None \<Rightarrow> JUndefined | Some v \<Rightarrow> v)"
| "getprop v k = Inr JUndefined"

fun truthy :: "json \<Rightarrow> bool" where
  "truthy JUndefined = False"
| "truthy JNull = False"
| "truthy (JBool b) = b"
| "truthy (JNum n) = (n \<noteq> 0)"
| "truthy (JStr s) = (s \<noteq> [])"
| "truthy v = True"

text \<open>\<open>xs.map ((x, i) => f i x)\<close> where \<open>f\<close> may throw, the index starting at \<open>i\<close>.\<close>

fun mapi_err :: "(nat \<Rightarrow> 'a \<Rightarrow> error + 'b) \<Rightarrow> nat \<Rightarrow> 'a list \<Rightarrow> error + 'b list" where
  "mapi_err f i [] = Inr []"
| "mapi_err f i (x # xs) =
     (case f i x of
        Inl e \<Rightarrow> Inl e
      | Inr y \<Rightarrow> (case mapi_err f (Suc i) xs of Inl e \<Rightarrow> Inl e | Inr ys \<Rightarrow> Inr (y # ys)))"

text \<open>\<open>v.map (...)\<close>: only an array has \<open>map\<close>.\<close>

definition js_map :: "(nat \<Rightarrow> json \<Rightarrow> error + 'b) \<Rightarrow> json \<Rightarrow> error + 'b list" where
  "js_map f v = (case v of JArr xs \<Rightarrow> mapi_err f 0 xs | _ \<Rightarrow> Inl TypeError)"

text \<open>A number as a template literal prints it, in decimal.\<close>

definition digit_char :: "nat \<Rightarrow> char" where
  "digit_char d = ''0123456789'' ! d"

fun decimal :: "nat \<Rightarrow> string" where
  "decimal n = (if 10 \<le> n then decimal (n div 10) @ [digit_char (n mod 10)] else [digit_char n])"

declare decimal.simps [simp del]

section \<open>The generation gateway (services/geminiService.ts)\<close>

text \<open>
  \<open>Array.isArray(parsed) ? parsed : (parsed.modules || parsed.data)\<close>, inside the
  \<open>try\<close> whose \<open>catch\<close> throws the parse error.  The gateway call itself is made before
  the \<open>try\<close>.
\<close>

definition rawModules_of :: "reply \<Rightarrow> error + json" where
  "rawModules_of r =
     (case r of
        CallFailed \<Rightarrow> Inl GatewayError
      | Unparsable \<Rightarrow> Inl ParseFailure
      | Parsed p \<Rightarrow>
          (case p of
             JArr xs \<Rightarrow> Inr p
           | _ \<Rightarrow>
              (case getprop p ''modules'' of
                 Inl e \<Rightarrow> Inl ParseFailure
               | Inr a \<Rightarrow>
                   if truthy a then Inr a
                   else (case getprop p ''data'' of Inl e \<Rightarrow> Inl ParseFailure | Inr b \<Rightarrow> Inr b))))"

definition mk_lesson :: "(nat \<Rightarrow> status) \<Rightarrow> nat \<Rightarrow> nat \<Rightarrow> json \<Rightarrow> error + lesson" where
  "mk_lesson st mNo lIdx l =
     (case getprop l ''title'' of
        Inl e \<Rightarrow> Inl e
      | Inr t \<Rightarrow>
          (case getprop l ''description'' of
             Inl e \<Rightarrow> Inl e
           | Inr d \<Rightarrow>
               Inr \<lparr> lesson_id = ''mod-'' @ decimal mNo @ ''-less-'' @ decimal lIdx,
                     lesson_title = t, lesson_description = d, status = st lIdx,
                     content = None, imageUrl = None, videoUrl = None,
                     quiz = None, codingChallenges = None \<rparr>))"

definition mk_module :: "(nat \<Rightarrow> nat \<Rightarrow> status) \<Rightarrow> nat \<Rightarrow> nat \<Rightarrow> json \<Rightarrow> error + module_rec" where
  "mk_module st base mIdx m =
     (case getprop m ''title'' of
        Inl e \<Rightarrow> Inl e
      | Inr t \<Rightarrow>
          (case getprop m ''description'' of
             Inl e \<Rightarrow> Inl e
           | Inr d \<Rightarrow>
               (case getprop m ''lessons'' of
                  Inl e \<Rightarrow> Inl e
                | Inr ls \<Rightarrow>
                    (case js_map (mk_lesson (st mIdx) (base + mIdx)) ls of
                       Inl e \<Rightarrow> Inl e
                     | Inr ls' \<Rightarrow>
                         Inr \<lparr> module_id = ''mod-'' @ decimal (base + mIdx),
                               module_title = t, module_description = d, lessons = ls' \<rparr>))))"

definition roadmap_status :: "nat \<Rightarrow> nat \<Rightarrow> status" where
  "roadmap_status mIdx lIdx = (if mIdx = 0 \<and> lIdx = 0 then Unlocked else Locked)"

definition generateRoadmap :: "reply \<Rightarrow> error + module_rec list" where
  "generateRoadmap r =
     (case rawModules_of r of
        Inl e \<Rightarrow> Inl e
      | Inr raw \<Rightarrow> js_map (mk_module roadmap_status 0) raw)"

definition expandCourse :: "course \<Rightarrow> reply \<Rightarrow> error + module_rec list" where
  "expandCourse c r =
     (case rawModules_of r of
        Inl e \<Rightarrow> Inl e
      | Inr raw \<Rightarrow> js_map (mk_module (\<lambda>mIdx lIdx. Locked) (length (modules c))) raw)"

section \<open>The course repository and the creation flow (App.tsx)\<close>

record app =
  appState :: appState
  activeTab :: tab
  topic_st :: string
  courses :: "course list"
  activeCourseId :: "string option"
  clarification :: clarificationState

text \<open>
  \<open>handleClarificationAnswer\<close>.  The two readings of the clock (\<open>Date.now()\<close>) are
  inputs, and so is the gateway's reply to the roadmap request.  The \<open>catch\<close> takes every
  error of \<open>generateRoadmap\<close>.
\<close>

definition newCourse :: "nat \<Rightarrow> nat \<Rightarrow> string \<Rightarrow> module_rec list \<Rightarrow> course" where
  "newCourse now1 now2 t ms =
     \<lparr> course_id = ''course-'' @ decimal now1, topic = t, modules = ms,
       currentModuleIndex = 0, currentLessonIndex = 0, createdAt = now2 \<rparr>"

definition handleClarificationAnswer :: "nat \<Rightarrow> nat \<Rightarrow> reply \<Rightarrow> string \<Rightarrow> app \<Rightarrow> app" where
  "handleClarificationAnswer now1 now2 r answer a =
     (let nextAnswers = answers (clarification a) @ [answer];
          nextIndex = currentQuestionIndex (clarification a) + 1;
          a1 = a\<lparr> clarification :=
                    (clarification a)\<lparr> answers := nextAnswers, currentQuestionIndex := nextIndex \<rparr> \<rparr>
      in if nextIndex \<ge> length (questions (clarification a)) then
           (case generateRoadmap r of
              Inr ms \<Rightarrow>
                (let c = newCourse now1 now2 (topic_st a) ms
                 in a1\<lparr> courses := courses a @ [c], activeCourseId := Some (course_id c),
                         appState := LEARNING, activeTab := TabLearn \<rparr>)
            | Inl e \<Rightarrow> a1\<lparr> appState := INITIAL \<rparr>)
         else a1)"

definition handleUpdateActiveCourse :: "course \<Rightarrow> app \<Rightarrow> app" where
  "handleUpdateActiveCourse updated a =
     a\<lparr> courses := map (\<lambda>c. if course_id c = course_id updated then updated else c) (courses a) \<rparr>"

text \<open>
  \<open>handleConfirmExpand\<close> (ProfileView): the course of the dialog with the new modules
  appended, handed to \<open>onUpdateCourse\<close>; on any error of \<open>expandCourse\<close> nothing is
  updated.
\<close>

definition expandedCourse :: "course \<Rightarrow> reply \<Rightarrow> error + course" where
  "expandedCourse c r =
     (case expandCourse c r of
        Inl e \<Rightarrow> Inl e
      | Inr newModules \<Rightarrow> Inr (c\<lparr> modules := modules c @ newModules \<rparr>))"

definition handleConfirmExpand :: "course \<Rightarrow> reply \<Rightarrow> app \<Rightarrow> app" where
  "handleConfirmExpand c r a =
     (case expandedCourse c r of Inl e \<Rightarrow> a | Inr updatedCourse \<Rightarrow> handleUpdateActiveCourse updatedCourse a)"

text \<open>
  The shape the roadmap prompt asks for ("Return JSON format strictly") and the
  interfaces \<open>Module\<close> and \<open>Lesson\<close> declare: an array of objects with a string
  \<open>title\<close>, a string \<open>description\<close> and an array \<open>lessons\<close> of objects with a string
  \<open>title\<close> and a string \<open>description\<close>.
\<close>

fun is_string :: "json \<Rightarrow> bool" where
  "is_string (JStr s) = True"
| "is_string v = False"

fun lesson_shape :: "json \<Rightarrow> bool" where
  "lesson_shape (JObj kvs) =
     ((case map_of kvs ''title'' of Some t \<Rightarrow> is_string t | None \<Rightarrow> False) \<and>
      (case map_of kvs ''description'' of Some d \<Rightarrow> is_string d | None \<Rightarrow> False))"
| "lesson_shape v = False"

fun module_shape :: "json \<Rightarrow> bool" where
  "module_shape (JObj kvs) =
     ((case map_of kvs ''title'' of Some t \<Rightarrow> is_string t | None \<Rightarrow> False) \<and>
      (case map_of kvs ''description'' of Some d \<Rightarrow> is_string d | None \<Rightarrow> False) \<and>
      (case map_of kvs ''lessons'' of Some (JArr ls) \<Rightarrow> list_all lesson_shape ls | _ \<Rightarrow> False))"
| "module_shape v = False"

fun roadmap_shape :: "reply \<Rightarrow> bool" where
  "roadmap_shape (Parsed (JArr ms)) = list_all module_shape ms"
| "roadmap_shape r = False"

text \<open>
  The answers that \<open>generateRoadmap\<close> reads to the end without throwing: the module
  list it finds is an array, no module and no lesson in it is \<open>null\<close>, and every module
  has an array \<open>lessons\<close>.
\<close>

fun nullish :: "json \<Rightarrow> bool" where
  "nullish JUndefined = True"
| "nullish JNull = True"
| "nullish v = False"

definition module_readable :: "json \<Rightarrow> bool" where
  "module_readable m =
     (\<not> nullish m \<and>
      (case getprop m ''lessons'' of
         Inr (JArr ls) \<Rightarrow> list_all (\<lambda>l. \<not> nullish l) ls
       | _ \<Rightarrow> False))"

definition roadmap_readable :: "reply \<Rightarrow> bool" where
  "roadmap_readable r =
     (case rawModules_of r of
        Inr (JArr ms) \<Rightarrow> list_all module_readable ms
      | _ \<Rightarrow> False)"

text \<open>A roadmap answer whose only module has lessons but neither title nor description.\<close>

definition untitled_roadmap :: reply where
  "untitled_roadmap = Parsed (JArr [JObj [(''lessons'', JArr [])]])"

section \<open>Lesson content (services/geminiService.ts)\<close>

text \<open>
  The text that \<open>generateLessonContent\<close> returns when the call fails.  The source's text
  is Russian; only its being non-empty matters here.
\<close>

definition lessonErrorText :: string where
  "lessonErrorText = ''Lesson loading error. Try to refresh.''"

text \<open>The argument is the text of the gateway's answer, \<open>None\<close> when the call fails.\<close>

definition generateLessonContent :: "string option \<Rightarrow> string" where
  "generateLessonContent t = (case t of None \<Rightarrow> lessonErrorText | Some s \<Rightarrow> s)"

text \<open>
  \<open>generateQuiz\<close>: everything happens inside the \<open>try\<close>, and the \<open>catch\<close> returns
  \<open>[]\<close>.
\<close>

definition generateQuiz :: "reply \<Rightarrow> json" where
  "generateQuiz r =
     (case r of
        CallFailed \<Rightarrow> JArr []
      | Unparsable \<Rightarrow> JArr []
      | Parsed d \<Rightarrow>
          (case d of
             JArr xs \<Rightarrow> d
           | _ \<Rightarrow>
              (case getprop d ''questions'' of
                 Inl e \<Rightarrow> JArr []
               | Inr q \<Rightarrow> if truthy q then q else JArr [])))"

text \<open>
  \<open>{...item, id: v}\<close>: the own properties of \<open>item\<close>, where an \<open>id\<close> it has keeps its
  place and takes the new value, and a new \<open>id\<close> comes last.
\<close>

fun spread :: "json \<Rightarrow> (string \<times> json) list" where
  "spread (JObj kvs) = kvs"
| "spread (JArr xs) = zip (map decimal [0..<length xs]) xs"
| "spread (JStr s) = zip (map decimal [0..<length s]) (map (\<lambda>c. JStr [c]) s)"
| "spread v = []"

definition with_id :: "nat \<Rightarrow> json \<Rightarrow> error + json" where
  "with_id i item =
     (let kvs = spread item;
          new_id = JStr (''challenge-'' @ decimal i)
      in Inr (JObj (if ''id'' \<in> set (map fst kvs)
                    then map (\<lambda>kv. if fst kv = ''id'' then (''id'', new_id) else kv) kvs
                    else kvs @ [(''id'', new_id)])))"

definition generateCodingChallenges :: "reply \<Rightarrow> json" where
  "generateCodingChallenges r =
     (case r of
        CallFailed \<Rightarrow> JArr []
      | Unparsable \<Rightarrow> JArr []
      | Parsed d \<Rightarrow>
          (let items =
                 (case d of
                    JArr xs \<Rightarrow> Inr d
                  | _ \<Rightarrow>
                     (case getprop d ''challenges'' of
                        Inl e \<Rightarrow> Inl e
                      | Inr q \<Rightarrow> Inr (if truthy q then q else JArr [])))
           in case items of
                Inl e \<Rightarrow> JArr []
              | Inr its \<Rightarrow> (case js_map with_id its of Inl e \<Rightarrow> JArr [] | Inr ys \<Rightarrow> JArr ys)))"

text \<open>
  \<open>generateLessonIllustration\<close>: the argument is the data of the first inline part of
  the answer, \<open>None\<close> when there is none or the call fails.
\<close>

definition generateLessonIllustration :: "string option \<Rightarrow> string option" where
  "generateLessonIllustration d =
     (case d of None \<Rightarrow> None | Some b \<Rightarrow> Some (''data:image/png;base64,'' @ b))"

section \<open>The course view (components/CourseView.tsx)\<close>

datatype stage = READING | CHALLENGE | QUIZ

text \<open>The gateway operations a lesson load can call.\<close>

datatype gateway_call = CallContent | CallQuiz | CallChallenges | CallIllustration

text \<open>What the gateway answers to the calls of one lesson load.\<close>

record gen =
  lessonText :: "string option"
  quizReply :: reply
  challengesReply :: reply
  illustration :: "string option"

text \<open>
  The state of \<open>CourseViewContent\<close>: the \<open>course\<close> prop and the component's state
  variables.  \<open>quizAnswers\<close> is an array with holes, \<open>None\<close> for a hole or \<open>undefined\<close>;
  \<open>expandedModules\<close> is a \<open>Set\<close> in insertion order; \<open>lessonDep\<close> is the dependency
  \<open>activeLesson?.id\<close> of the last run of the loading effect; \<open>gatewayCalls\<close> records the
  gateway calls made so far (it is not a variable of the source).
\<close>

record view =
  course_v :: course
  content_v :: string
  generatedImage :: "string option"
  quiz_v :: json
  challenges :: json
  viewStage :: stage
  quizAnswers :: "nat option list"
  quizSubmitted :: bool
  expandedModules :: "string list"
  lessonDep :: "string option"
  gatewayCalls :: "gateway_call list"

definition lessonAt :: "module_rec list \<Rightarrow> nat \<Rightarrow> nat \<Rightarrow> lesson option" where
  "lessonAt ms m l =
     (if m < length ms \<and> l < length (lessons (ms ! m)) then Some (lessons (ms ! m) ! l) else None)"

definition activeModule :: "course \<Rightarrow> module_rec option" where
  "activeModule c =
     (if currentModuleIndex c < length (modules c) then Some (modules c ! currentModuleIndex c)
      else None)"

definition activeLesson :: "course \<Rightarrow> lesson option" where
  "activeLesson c = lessonAt (modules c) (currentModuleIndex c) (currentLessonIndex c)"

text \<open>
  \<open>updatedModules[m].lessons[l].field = ...\<close> on an existing lesson.  The source writes
  into the lesson object that the old and the new course share; the new course replaces
  the old one at once through \<open>updateCourse\<close>.
\<close>

definition updLesson :: "nat \<Rightarrow> nat \<Rightarrow> (lesson \<Rightarrow> lesson) \<Rightarrow> module_rec list \<Rightarrow> module_rec list" where
  "updLesson m l f ms =
     ms[m := (ms ! m)\<lparr> lessons := (lessons (ms ! m))[l := f (lessons (ms ! m) ! l)] \<rparr>]"

text \<open>
  \<open>handleLessonSelect\<close>: reading \<open>course.modules[modIdx].lessons[lessIdx].status\<close> throws
  when the module or the lesson does not exist.  The result is the course handed to
  \<open>updateCourse\<close>, or \<open>None\<close> when the handler returns without calling it.
\<close>

definition handleLessonSelect :: "course \<Rightarrow> nat \<Rightarrow> nat \<Rightarrow> error + course option" where
  "handleLessonSelect c modIdx lessIdx =
     (case lessonAt (modules c) modIdx lessIdx of
        None \<Rightarrow> Inl TypeError
      | Some targetLesson \<Rightarrow>
          if status targetLesson = Locked then Inr None
          else Inr (Some (c\<lparr> currentModuleIndex := modIdx, currentLessonIndex := lessIdx \<rparr>)))"

definition markLessonCompleted :: "course \<Rightarrow> error + course" where
  "markLessonCompleted c =
     (case activeLesson c of
        None \<Rightarrow> Inl TypeError
      | Some al \<Rightarrow>
          Inr (c\<lparr> modules := updLesson (currentModuleIndex c) (currentLessonIndex c)
                                 (\<lambda>x. x\<lparr> status := Completed \<rparr>) (modules c) \<rparr>))"

text \<open>
  The position \<open>submitQuiz\<close> and \<open>moveToNextLesson\<close> compute: the next index in the
  current module, or the start of the next module when the current one is exhausted.
\<close>

definition nextPosition :: "module_rec list \<Rightarrow> nat \<Rightarrow> nat \<Rightarrow> nat \<times> nat" where
  "nextPosition ms modIdx lessIdx =
     (if lessIdx + 1 \<ge> length (lessons (ms ! modIdx)) then (modIdx + 1, 0)
      else (modIdx, lessIdx + 1))"

text \<open>The course that \<open>submitQuiz\<close> hands to \<open>updateCourse\<close>.\<close>

definition submitQuiz_course :: "course \<Rightarrow> error + course" where
  "submitQuiz_course c =
     (case activeLesson c of
        None \<Rightarrow> Inl TypeError
      | Some al \<Rightarrow>
          (let ms1 = updLesson (currentModuleIndex c) (currentLessonIndex c)
                       (\<lambda>x. x\<lparr> status := Completed \<rparr>) (modules c);
               (nextModIdx, nextLessIdx) =
                  nextPosition ms1 (currentModuleIndex c) (currentLessonIndex c);
               ms2 = (if nextModIdx < length ms1 \<and> nextLessIdx < length (lessons (ms1 ! nextModIdx))
                      then updLesson nextModIdx nextLessIdx (\<lambda>x. x\<lparr> status := Unlocked \<rparr>) ms1
                      else ms1)
           in Inr (c\<lparr> modules := ms2 \<rparr>)))"

definition moveToNextLesson_course :: "course \<Rightarrow> error + course option" where
  "moveToNextLesson_course c =
     (case activeModule c of
        None \<Rightarrow> Inl TypeError
      | Some am \<Rightarrow>
          (let (nextModIdx, nextLessIdx) =
                 nextPosition (modules c) (currentModuleIndex c) (currentLessonIndex c)
           in if nextModIdx < length (modules c)
              then Inr (Some (c\<lparr> currentModuleIndex := nextModIdx, currentLessonIndex := nextLessIdx \<rparr>))
              else Inr None))"

text \<open>\<open>s || null\<close> for a string that may be absent, and \<open>v || []\<close>.\<close>

definition nonempty :: "string option \<Rightarrow> string option" where
  "nonempty s = (case s of None \<Rightarrow> None | Some x \<Rightarrow> if x = [] then None else Some x)"

definition json_or_empty :: "json option \<Rightarrow> json" where
  "json_or_empty v = (case v of None \<Rightarrow> JArr [] | Some j \<Rightarrow> if truthy j then j else JArr [])"

text \<open>
  \<open>loadLesson\<close> for the active lesson \<open>al\<close>, run to its end in one step: the gateway's
  answers are those of \<open>g\<close>, and nothing else happens between the request and the update
  of the course.  The text of the lesson is taken to be a string, as the gateway's
  contract says.
\<close>

definition loadLesson :: "gen \<Rightarrow> lesson \<Rightarrow> view \<Rightarrow> view" where
  "loadLesson g al v =
     (let c = course_v v;
          cm = currentModuleIndex c;
          cl = currentLessonIndex c;
          v1 = v\<lparr> viewStage := READING, quizSubmitted := False, quizAnswers := [],
                  challenges := JArr [], generatedImage := nonempty (imageUrl al) \<rparr>
      in case nonempty (content al) of
           Some text \<Rightarrow>
             (let v2 = v1\<lparr> content_v := text, quiz_v := json_or_empty (quiz al),
                          challenges := json_or_empty (codingChallenges al) \<rparr>
              in if nonempty (imageUrl al) = None \<and> nonempty (videoUrl al) = None then
                   (let v3 = v2\<lparr> gatewayCalls := gatewayCalls v2 @ [CallIllustration] \<rparr>
                    in case generateLessonIllustration (illustration g) of
                         None \<Rightarrow> v3
                       | Some img \<Rightarrow>
                           v3\<lparr> generatedImage := Some img,
                               course_v := c\<lparr> modules :=
                                 updLesson cm cl (\<lambda>x. x\<lparr> imageUrl := Some img \<rparr>) (modules c) \<rparr> \<rparr>)
                 else v2)
         | None \<Rightarrow>
             (let text = generateLessonContent (lessonText g);
                  quizData = generateQuiz (quizReply g);
                  challengeData = generateCodingChallenges (challengesReply g);
                  imgData = generateLessonIllustration (illustration g)
              in v1\<lparr> content_v := text, quiz_v := quizData, challenges := challengeData,
                      generatedImage := imgData,
                      course_v := c\<lparr> modules :=
                        updLesson cm cl
                          (\<lambda>x. x\<lparr> content := Some text, quiz := Some quizData,
                                   codingChallenges := Some challengeData,
                                   imageUrl := nonempty imgData \<rparr>) (modules c) \<rparr>,
                      gatewayCalls := gatewayCalls v @
                        [CallContent, CallQuiz, CallChallenges, CallIllustration] \<rparr>))"

text \<open>
  The effect with dependency \<open>[activeLesson?.id]\<close>: after a render in which the id of
  the active lesson differs from that of the last run, the lesson is loaded if it exists
  and is not locked.
\<close>

definition lessonEffect :: "gen \<Rightarrow> view \<Rightarrow> view" where
  "lessonEffect g v =
     (let dep = map_option lesson_id (activeLesson (course_v v))
      in if dep = lessonDep v then v
         else (case activeLesson (course_v v) of
                 None \<Rightarrow> v\<lparr> lessonDep := dep \<rparr>
               | Some al \<Rightarrow>
                   if status al \<noteq> Locked then loadLesson g al (v\<lparr> lessonDep := dep \<rparr>)
                   else v\<lparr> lessonDep := dep \<rparr>))"

text \<open>
  The first render of the view on a course, and the first run of the effect.  The
  component throws when the active module does not exist
  (\<open>activeModule.lessons\<close>), and its first render, which is in the reading stage,
  throws when the active lesson does not exist (\<open>activeLesson.videoUrl\<close>).
\<close>

definition initialView :: "course \<Rightarrow> string \<Rightarrow> view" where
  "initialView c activeModuleId =
     \<lparr> course_v = c, content_v = [], generatedImage = None, quiz_v = JArr [],
       challenges = JArr [], viewStage = READING, quizAnswers = [], quizSubmitted = False,
       expandedModules = [activeModuleId],
       lessonDep = map_option lesson_id (activeLesson c), gatewayCalls = [] \<rparr>"

definition mount :: "gen \<Rightarrow> course \<Rightarrow> error + view" where
  "mount g c =
     (case activeModule c of
        None \<Rightarrow> Inl TypeError
      | Some am \<Rightarrow>
          (case activeLesson c of
             None \<Rightarrow> Inl TypeError
           | Some al \<Rightarrow>
               if status al \<noteq> Locked then Inr (loadLesson g al (initialView c (module_id am)))
               else Inr (initialView c (module_id am))))"

subsection \<open>Event handlers\<close>

text \<open>
  A handler that throws leaves the state as it was, apart from the updates it had
  already requested.
\<close>

definition selectLesson :: "gen \<Rightarrow> view \<Rightarrow> nat \<Rightarrow> nat \<Rightarrow> view" where
  "selectLesson g v modIdx lessIdx =
     (case handleLessonSelect (course_v v) modIdx lessIdx of
        Inl e \<Rightarrow> v
      | Inr None \<Rightarrow> v
      | Inr (Some c) \<Rightarrow> lessonEffect g (v\<lparr> course_v := c \<rparr>))"

definition handleSkipToPractice :: "view \<Rightarrow> view" where
  "handleSkipToPractice v =
     (case markLessonCompleted (course_v v) of
        Inl e \<Rightarrow> v
      | Inr c \<Rightarrow> v\<lparr> course_v := c, viewStage := CHALLENGE \<rparr>)"

text \<open>\<open>newAnswers[qIndex] = optionIndex\<close> on a copy of the array.\<close>

definition set_answer :: "nat option list \<Rightarrow> nat \<Rightarrow> nat \<Rightarrow> nat option list" where
  "set_answer xs qIndex optionIndex =
     (if qIndex < length xs then xs[qIndex := Some optionIndex]
      else xs @ replicate (qIndex - length xs) None @ [Some optionIndex])"

definition handleQuizAnswer :: "view \<Rightarrow> nat \<Rightarrow> nat \<Rightarrow> view" where
  "handleQuizAnswer v qIndex optionIndex =
     (if quizSubmitted v then v
      else v\<lparr> quizAnswers := set_answer (quizAnswers v) qIndex optionIndex \<rparr>)"

definition set_add :: "string list \<Rightarrow> string \<Rightarrow> string list" where
  "set_add xs x = (if x \<in> set xs then xs else xs @ [x])"

definition toggleModule :: "view \<Rightarrow> string \<Rightarrow> view" where
  "toggleModule v modId =
     v\<lparr> expandedModules :=
          (if modId \<in> set (expandedModules v) then removeAll modId (expandedModules v)
           else expandedModules v @ [modId]) \<rparr>"

text \<open>\<open>submitQuiz\<close> reads neither the quiz nor the answers.\<close>

definition submitQuiz :: "view \<Rightarrow> view" where
  "submitQuiz v =
     (let v1 = v\<lparr> quizSubmitted := True \<rparr>;
          c = course_v v
      in case submitQuiz_course c of
           Inl e \<Rightarrow> v1
         | Inr c' \<Rightarrow>
             (let (nextModIdx, nextLessIdx) =
                     nextPosition (modules c') (currentModuleIndex c) (currentLessonIndex c)
              in v1\<lparr> course_v := c',
                      expandedModules :=
                        (if nextModIdx < length (modules c') \<and>
                            nextLessIdx < length (lessons (modules c' ! nextModIdx)) \<and>
                            nextModIdx \<noteq> currentModuleIndex c
                         then set_add (expandedModules v) (module_id (modules c' ! nextModIdx))
                         else expandedModules v) \<rparr>))"

definition moveToNextLesson :: "gen \<Rightarrow> view \<Rightarrow> view" where
  "moveToNextLesson g v =
     (case moveToNextLesson_course (course_v v) of
        Inl e \<Rightarrow> v
      | Inr None \<Rightarrow> v
      | Inr (Some c) \<Rightarrow> lessonEffect g (v\<lparr> course_v := c \<rparr>))"

subsection \<open>What the user can do\<close>

fun js_length :: "json \<Rightarrow> nat option" where
  "js_length (JArr xs) = Some (length xs)"
| "js_length (JStr s) = Some (length s)"
| "js_length v = None"

text \<open>
  \<open>quiz.length > 0 && quizAnswers.filter(a => a !== undefined).length === quiz.length\<close>
\<close>

definition isAllAnswered :: "view \<Rightarrow> bool" where
  "isAllAnswered v =
     (case js_length (quiz_v v) of
        None \<Rightarrow> False
      | Some n \<Rightarrow> n > 0 \<and> length (filter (\<lambda>a. a \<noteq> None) (quizAnswers v)) = n)"

text \<open>
  The sidebar shows a button for each lesson of each expanded module, disabled while the
  lesson is locked; the quiz shows a button for each option of each question.
\<close>

definition lessonButton :: "view \<Rightarrow> nat \<Rightarrow> nat \<Rightarrow> bool" where
  "lessonButton v m l =
     (case lessonAt (modules (course_v v)) m l of
        None \<Rightarrow> False
      | Some x \<Rightarrow> module_id (modules (course_v v) ! m) \<in> set (expandedModules v) \<and> status x \<noteq> Locked)"

definition quizButton :: "view \<Rightarrow> nat \<Rightarrow> nat \<Rightarrow> bool" where
  "quizButton v q opt =
     (case quiz_v v of
        JArr qs \<Rightarrow>
          q < length qs \<and>
          (case getprop (qs ! q) ''options'' of Inr (JArr os) \<Rightarrow> opt < length os | _ \<Rightarrow> False)
      | _ \<Rightarrow> False)"

datatype event =
    SelectLesson nat nat
  | ToggleModule nat
  | SkipToPractice
  | GoToPractice
  | BackToReading
  | ChallengesDone
  | BackToChallenge
  | QuizAnswer nat nat
  | SubmitQuiz
  | NextLesson

text \<open>
  One user action on the view.  An action whose control is not shown or is disabled
  changes nothing.  \<open>ChallengesDone\<close> is the button of a lesson without challenges or
  the \<open>onComplete\<close> of the coding lab.  The gateway's answers \<open>g\<close> are used if the action
  makes another lesson load.  Generating a video, which only stores the video's address in
  the active lesson, is left out, and so are the settings dialog and the mobile menu.
\<close>

fun step :: "gen \<Rightarrow> view \<Rightarrow> event \<Rightarrow> view" where
  "step g v (SelectLesson m l) = (if lessonButton v m l then selectLesson g v m l else v)"
| "step g v (ToggleModule m) =
     (if m < length (modules (course_v v)) then toggleModule v (module_id (modules (course_v v) ! m))
      else v)"
| "step g v SkipToPractice = (if viewStage v = READING then handleSkipToPractice v else v)"
| "step g v GoToPractice = (if viewStage v = READING then v\<lparr> viewStage := CHALLENGE \<rparr> else v)"
| "step g v BackToReading = (if viewStage v = CHALLENGE then v\<lparr> viewStage := READING \<rparr> else v)"
| "step g v ChallengesDone = (if viewStage v = CHALLENGE then v\<lparr> viewStage := QUIZ \<rparr> else v)"
| "step g v BackToChallenge = (if viewStage v = QUIZ then v\<lparr> viewStage := CHALLENGE \<rparr> else v)"
| "step g v (QuizAnswer q opt) =
     (if viewStage v = QUIZ \<and> \<not> quizSubmitted v \<and> quizButton v q opt
      then handleQuizAnswer v q opt else v)"
| "step g v SubmitQuiz =
     (if viewStage v = QUIZ \<and> \<not> quizSubmitted v \<and> isAllAnswered v then submitQuiz v else v)"
| "step g v NextLesson =
     (if viewStage v = QUIZ \<and> quizSubmitted v then moveToNextLesson g v else v)"

fun run :: "gen \<Rightarrow> view \<Rightarrow> event list \<Rightarrow> view" where
  "run g v [] = v"
| "run g v (e # es) = run g (step g v e) es"

text \<open>
  Answers are recorded only for the questions of the quiz shown: the answer array is no
  longer than the quiz, and empty when the quiz has no length.
\<close>

definition answersBounded :: "view \<Rightarrow> bool" where
  "answersBounded v =
     (case js_length (quiz_v v) of
        None \<Rightarrow> quizAnswers v = []
      | Some n \<Rightarrow> length (quizAnswers v) \<le> n)"

text \<open>The effect has run for the lesson that is active now.\<close>

definition settled :: "view \<Rightarrow> bool" where
  "settled v = (lessonDep v = map_option lesson_id (activeLesson (course_v v)))"

text \<open>The statuses of a course, module by module.\<close>

definition statuses :: "course \<Rightarrow> status list list" where
  "statuses c = map (\<lambda>m. map status (lessons m)) (modules c)"

text \<open>The status of the lesson at a position, if there is one.\<close>

definition statusAt :: "course \<Rightarrow> nat \<Rightarrow> nat \<Rightarrow> status option" where
  "statusAt c m l = map_option status (lessonAt (modules c) m l)"

text \<open>
  A view whose quiz is empty and not submitted, in a course where no lesson but the
  current one is unlocked or completed.
\<close>

definition blocked :: "view \<Rightarrow> bool" where
  "blocked v =
     (quiz_v v = JArr [] \<and> \<not> quizSubmitted v \<and> settled v \<and>
      (\<forall>m l. (m, l) \<noteq> (currentModuleIndex (course_v v), currentLessonIndex (course_v v)) \<longrightarrow>
             statusAt (course_v v) m l = None \<or> statusAt (course_v v) m l = Some Locked))"

section \<open>A small course\<close>

text \<open>
  The scenario of a fresh course on "Linear Algebra" with one module of two lessons: the
  roadmap answer, one quiz question, the gateway's answers to a lesson load, and the
  application after the topic was entered and one clarifying question was asked.
\<close>

definition example_roadmap :: reply where
  "example_roadmap =
     Parsed (JArr [JObj [(''title'', JStr ''Basics''), (''description'', JStr ''Start''),
       (''lessons'', JArr [JObj [(''title'', JStr ''Vectors''), (''description'', JStr ''a'')],
                           JObj [(''title'', JStr ''Matrices''), (''description'', JStr ''b'')]])]])"

definition example_question :: json where
  "example_question =
     JObj [(''question'', JStr ''Q''), (''options'', JArr [JStr ''x'', JStr ''y'']),
           (''correctAnswerIndex'', JNum 0)]"

definition example_gen :: gen where
  "example_gen =
     \<lparr> lessonText = Some ''text'', quizReply = Parsed (JArr [example_question]),
       challengesReply = Parsed (JArr []), illustration = Some ''AAAA'' \<rparr>"

definition example_app :: app where
  "example_app =
     \<lparr> appState = CLARIFYING, activeTab = TabLearn, topic_st = ''Linear Algebra'',
       courses = [], activeCourseId = None,
       clarification = \<lparr> questions = [''Level?''], answers = [], currentQuestionIndex = 0 \<rparr> \<rparr>"

definition example_gen_no_quiz :: gen where
  "example_gen_no_quiz = example_gen\<lparr> quizReply := CallFailed \<rparr>"

definition example_lesson :: "nat \<Rightarrow> string \<Rightarrow> string \<Rightarrow> status \<Rightarrow> lesson" where
  "example_lesson l t d st =
     \<lparr> lesson_id = ''mod-0-less-'' @ decimal l, lesson_title = JStr t,
       lesson_description = JStr d, status = st, content = None, imageUrl = None,
       videoUrl = None, quiz = None, codingChallenges = None \<rparr>"

definition example_course :: "status \<Rightarrow> status \<Rightarrow> course" where
  "example_course s0 s1 =
     \<lparr> course_id = ''course-1'', topic = ''Linear Algebra'',
       modules = [\<lparr> module_id = ''mod-0'', module_title = JStr ''Basics'',
                    module_description = JStr ''Start'',
                    lessons = [example_lesson 0 ''Vectors'' ''a'' s0,
                               example_lesson 1 ''Matrices'' ''b'' s1] \<rparr>],
       currentModuleIndex = 0, currentLessonIndex = 0, createdAt = 1 \<rparr>"

text \<open>
  The view of the fresh course once its first lesson is loaded, and the same when the
  generation of the quiz failed.
\<close>

definition example_view :: view where
  "example_view =
     loadLesson example_gen (example_lesson 0 ''Vectors'' ''a'' Unlocked)
       (initialView (example_course Unlocked Locked) ''mod-0'')"

definition example_view_no_quiz :: view where
  "example_view_no_quiz =
     loadLesson example_gen_no_quiz (example_lesson 0 ''Vectors'' ''a'' Unlocked)
       (initialView (example_course Unlocked Locked) ''mod-0'')"

text \<open>
  The first lesson's view brought to its quiz, and after the quiz was answered and
  submitted.
\<close>

definition example_view_quiz :: view where
  "example_view_quiz = run example_gen example_view [GoToPractice, ChallengesDone]"

definition example_view_submitted :: view where
  "example_view_submitted = run example_gen example_view_quiz [QuizAnswer 0 0, SubmitQuiz]"

text \<open>The first lesson as the course holds it once it was loaded.\<close>

definition example_lesson_loaded :: lesson where
  "example_lesson_loaded =
     (example_lesson 0 ''Vectors'' ''a'' Unlocked)
       \<lparr> content := Some ''text'', imageUrl := Some ''data:image/png;base64,AAAA'',
         quiz := Some (JArr [example_question]), codingChallenges := Some (JArr []) \<rparr>"

text \<open>
  The actions that complete the first lesson by its quiz and the second by skipping it,
  and those that then go back to the first lesson and submit its quiz again.
\<close>

definition complete_both :: "event list" where
  "complete_both =
     [GoToPractice, ChallengesDone, QuizAnswer 0 0, SubmitQuiz, NextLesson, SkipToPractice]"

definition resubmit_first :: "event list" where
  "resubmit_first =
     [SelectLesson 0 0, GoToPractice, ChallengesDone, QuizAnswer 0 0, SubmitQuiz]"

text \<open>
  A roadmap of the shape asked for whose second module has no lessons, the course made
  from it, its view once the only lesson is loaded, and the actions that finish this
  lesson by its quiz and go on to the next lesson.  And a roadmap of the shape asked for
  whose only module has no lessons.
\<close>

definition gap_roadmap :: reply where
  "gap_roadmap =
     Parsed (JArr [JObj [(''title'', JStr ''Basics''), (''description'', JStr ''Start''),
                         (''lessons'', JArr [JObj [(''title'', JStr ''Vectors''),
                                                   (''description'', JStr ''a'')]])],
                   JObj [(''title'', JStr ''Later''), (''description'', JStr ''Empty''),
                         (''lessons'', JArr [])]])"

definition gap_course :: course where
  "gap_course =
     \<lparr> course_id = ''course-1'', topic = ''Linear Algebra'',
       modules = [\<lparr> module_id = ''mod-0'', module_title = JStr ''Basics'',
                    module_description = JStr ''Start'',
                    lessons = [example_lesson 0 ''Vectors'' ''a'' Unlocked] \<rparr>,
                  \<lparr> module_id = ''mod-1'', module_title = JStr ''Later'',
                    module_description = JStr ''Empty'', lessons = [] \<rparr>],
       currentModuleIndex = 0, currentLessonIndex = 0, createdAt = 1 \<rparr>"

definition gap_view :: view where
  "gap_view =
     loadLesson example_gen (example_lesson 0 ''Vectors'' ''a'' Unlocked)
       (initialView gap_course ''mod-0'')"

definition finish_and_next :: "event list" where
  "finish_and_next = [GoToPractice, ChallengesDone, QuizAnswer 0 0, SubmitQuiz, NextLesson]"

definition empty_module_roadmap :: reply where
  "empty_module_roadmap =
     Parsed (JArr [JObj [(''title'', JStr ''Basics''), (''description'', JStr ''Start''),
                         (''lessons'', JArr [])]])"

section \<open>Properties\<close>

lemma mapi_err_length: "mapi_err f i xs = Inr ys \<Longrightarrow> length ys = length xs"
  by (induction xs arbitrary: i ys) (auto split: sum.splits)

lemma mapi_err_nth:
  "mapi_err f i xs = Inr ys \<Longrightarrow> k < length xs \<Longrightarrow> f (i + k) (xs ! k) = Inr (ys ! k)"
proof (induction xs arbitrary: i ys k)
  case Nil
  then show ?case by simp
next
  case (Cons x xs)
  from Cons.prems(1) obtain y ys' where
    y: "f i x = Inr y" and ys': "mapi_err f (Suc i) xs = Inr ys'" and ys: "ys = y # ys'"
    by (auto split: sum.splits)
  show ?case
  proof (cases k)
    case 0
    then show ?thesis using y ys by simp
  next
    case (Suc j)
    with Cons.prems(2) have "j < length xs" by simp
    from Cons.IH [OF ys' this] show ?thesis using Suc ys by simp
  qed
qed

subsection \<open>Lessons of a course by position\<close>

lemma lessonAt_Some_iff:
  "lessonAt ms m l = Some x \<longleftrightarrow> m < length ms \<and> l < length (lessons (ms ! m)) \<and> x = lessons (ms ! m) ! l"
  by (auto simp: lessonAt_def)

lemma lessonAt_None_iff:
  "lessonAt ms m l = None \<longleftrightarrow> \<not> (m < length ms \<and> l < length (lessons (ms ! m)))"
  by (auto simp: lessonAt_def)

lemma length_updLesson [simp]: "length (updLesson m l f ms) = length ms"
  by (simp add: updLesson_def)

lemma length_lessons_updLesson [simp]:
  "length (lessons (updLesson m l f ms ! k)) = length (lessons (ms ! k))"
  by (cases "m < length ms"; cases "k = m") (simp_all add: updLesson_def list_update_beyond)

lemma lessonAt_updLesson:
  "lessonAt (updLesson m l f ms) m' l' =
     (if m' = m \<and> l' = l then map_option f (lessonAt ms m l) else lessonAt ms m' l')"
  by (cases "m < length ms"; cases "m' = m"; cases "l' = l")
     (auto simp: lessonAt_def updLesson_def nth_list_update)

lemma module_id_updLesson [simp]:
  "module_id (updLesson m l f ms ! k) = module_id (ms ! k)"
  by (cases "m < length ms"; cases "k = m") (simp_all add: updLesson_def list_update_beyond)

subsection \<open>Statuses of generated modules\<close>

lemma js_map_Inr:
  assumes "js_map f v = Inr ys"
  shows "\<exists>xs. v = JArr xs \<and> length ys = length xs \<and>
              (\<forall>k<length xs. f k (xs ! k) = Inr (ys ! k))"
proof -
  from assms obtain xs where v: "v = JArr xs" and m: "mapi_err f 0 xs = Inr ys"
    by (auto simp: js_map_def split: json.splits)
  have "length ys = length xs" using m by (rule mapi_err_length)
  moreover have "f k (xs ! k) = Inr (ys ! k)" if "k < length xs" for k
    using mapi_err_nth [OF m that] by simp
  ultimately show ?thesis using v by blast
qed

lemma mk_lesson_status: "mk_lesson st mNo lIdx l = Inr x \<Longrightarrow> status x = st lIdx"
  by (auto simp: mk_lesson_def split: sum.splits)

lemma mk_module_status:
  assumes "mk_module st base mIdx m = Inr x" and "l < length (lessons x)"
  shows "status (lessons x ! l) = st mIdx l"
proof -
  from assms(1) obtain ls ls' where
    ls': "js_map (mk_lesson (st mIdx) (base + mIdx)) ls = Inr ls'" and x: "lessons x = ls'"
    by (auto simp: mk_module_def split: sum.splits)
  from js_map_Inr [OF ls'] obtain xs where len: "length ls' = length xs"
    and nth: "\<And>k. k < length xs \<Longrightarrow> mk_lesson (st mIdx) (base + mIdx) k (xs ! k) = Inr (ls' ! k)"
    by blast
  from assms(2) x len have "l < length xs" by simp
  from nth [OF this] show ?thesis using x by (simp add: mk_lesson_status)
qed

lemma generateRoadmap_status:
  assumes "generateRoadmap r = Inr ms" and "m < length ms" and "l < length (lessons (ms ! m))"
  shows "status (lessons (ms ! m) ! l) = roadmap_status m l"
proof -
  from assms(1) obtain raw where "js_map (mk_module roadmap_status 0) raw = Inr ms"
    by (auto simp: generateRoadmap_def split: sum.splits)
  from js_map_Inr [OF this] obtain xs where len: "length ms = length xs"
    and nth: "\<And>k. k < length xs \<Longrightarrow> mk_module roadmap_status 0 k (xs ! k) = Inr (ms ! k)"
    by blast
  from assms(2) len have "m < length xs" by simp
  from mk_module_status [OF nth [OF this] assms(3)] show ?thesis .
qed

lemma expandCourse_status:
  assumes "expandCourse c r = Inr ms" and "m < length ms" and "l < length (lessons (ms ! m))"
  shows "status (lessons (ms ! m) ! l) = Locked"
proof -
  from assms(1) obtain raw where
    "js_map (mk_module (\<lambda>mIdx lIdx. Locked) (length (modules c))) raw = Inr ms"
    by (auto simp: expandCourse_def split: sum.splits)
  from js_map_Inr [OF this] obtain xs where len: "length ms = length xs"
    and nth: "\<And>k. k < length xs \<Longrightarrow>
       mk_module (\<lambda>mIdx lIdx. Locked) (length (modules c)) k (xs ! k) = Inr (ms ! k)"
    by blast
  from assms(2) len have "m < length xs" by simp
  from mk_module_status [OF nth [OF this] assms(3)] show ?thesis .
qed

section \<open>Course creation\<close>

text \<open>
  Claim C6.  When the last clarifying answer is given and the roadmap is generated, the
  course added to the list has the generated modules, and a lesson of it is unlocked if
  it is the first lesson of the first module and locked otherwise.
\<close>

theorem fresh_course_statuses:
  assumes "generateRoadmap r = Inr ms"
    and "length (questions (clarification a)) \<le> currentQuestionIndex (clarification a) + 1"
  shows "\<exists>c. courses (handleClarificationAnswer now1 now2 r answer a) = courses a @ [c] \<and>
             modules c = ms \<and>
             (\<forall>m l x. lessonAt (modules c) m l = Some x \<longrightarrow>
                      status x = (if m = 0 \<and> l = 0 then Unlocked else Locked))"
proof -
  let ?c = "newCourse now1 now2 (topic_st a) ms"
  have "courses (handleClarificationAnswer now1 now2 r answer a) = courses a @ [?c]"
    using assms by (simp add: handleClarificationAnswer_def Let_def)
  moreover have "modules ?c = ms" by (simp add: newCourse_def)
  moreover have "status x = (if m = 0 \<and> l = 0 then Unlocked else Locked)"
    if "lessonAt ms m l = Some x" for m l x
    using that generateRoadmap_status [OF assms(1), of m l]
    by (simp add: lessonAt_Some_iff roadmap_status_def)
  ultimately show ?thesis by auto
qed

theorem fresh_course_statuses_witness:
  "\<exists>c x0 x1. courses (handleClarificationAnswer 1 1 example_roadmap ''none'' example_app) =
                 courses example_app @ [c] \<and>
              lessonAt (modules c) 0 0 = Some x0 \<and> status x0 = Unlocked \<and>
              lessonAt (modules c) 0 1 = Some x1 \<and> status x1 = Locked"
proof -
  let ?ms = "modules (example_course Unlocked Locked)"
  have h1: "generateRoadmap example_roadmap = Inr ?ms"
    by code_simp
  have h2: "length (questions (clarification example_app))
              \<le> currentQuestionIndex (clarification example_app) + 1"
    by code_simp
  from fresh_course_statuses [OF h1 h2, of 1 1 "''none''"] obtain c where
    c: "courses (handleClarificationAnswer 1 1 example_roadmap ''none'' example_app) =
          courses example_app @ [c]"
    and ms: "modules c = ?ms"
    and st: "\<And>m l x. lessonAt (modules c) m l = Some x \<Longrightarrow>
               status x = (if m = 0 \<and> l = 0 then Unlocked else Locked)"
    by blast
  obtain x0 where x0: "lessonAt (modules c) 0 0 = Some x0"
    using ms by (simp add: lessonAt_def example_course_def)
  obtain x1 where x1: "lessonAt (modules c) 0 1 = Some x1"
    using ms by (simp add: lessonAt_def example_course_def)
  from st [OF x0] st [OF x1] c x0 x1 show ?thesis by auto
qed

section \<open>Course expansion\<close>

text \<open>
  Claim C8.  When the expansion returns new modules, the course handed to the repository
  is the old course with exactly these modules appended to its module list: every other
  field is as before, the old modules are the prefix of the new list, the number of
  modules grows by the number of new modules, and every lesson of a new module is locked.
\<close>

theorem expand_appends:
  assumes "expandCourse c r = Inr newModules"
  shows "expandedCourse c r = Inr (c\<lparr> modules := modules c @ newModules \<rparr>) \<and>
         handleConfirmExpand c r a =
           handleUpdateActiveCourse (c\<lparr> modules := modules c @ newModules \<rparr>) a \<and>
         take (length (modules c)) (modules c @ newModules) = modules c \<and>
         length (modules c @ newModules) = length (modules c) + length newModules \<and>
         (\<forall>m l x. lessonAt newModules m l = Some x \<longrightarrow>
            lessonAt (modules c @ newModules) (length (modules c) + m) l = Some x \<and> status x = Locked)"
proof -
  have "status x = Locked" if "lessonAt newModules m l = Some x" for m l x
    using that expandCourse_status [OF assms, of m l] by (simp add: lessonAt_Some_iff)
  moreover have "lessonAt (modules c @ newModules) (length (modules c) + m) l = Some x"
    if "lessonAt newModules m l = Some x" for m l x
    using that by (simp add: lessonAt_def nth_append split: if_splits)
  ultimately show ?thesis
    using assms by (simp add: expandedCourse_def handleConfirmExpand_def)
qed

theorem expand_appends_witness:
  "\<exists>c' x. expandedCourse (example_course Completed Unlocked) example_roadmap = Inr c' \<and>
          take 1 (modules c') = modules (example_course Completed Unlocked) \<and>
          length (modules c') = 2 \<and>
          lessonAt (modules c') 1 0 = Some x \<and> status x = Locked"
proof -
  let ?c = "example_course Completed Unlocked"
  let ?l0 = "\<lparr> lesson_id = ''mod-1-less-0'', lesson_title = JStr ''Vectors'',
               lesson_description = JStr ''a'', status = Locked, content = None,
               imageUrl = None, videoUrl = None, quiz = None, codingChallenges = None \<rparr>"
  let ?l1 = "\<lparr> lesson_id = ''mod-1-less-1'', lesson_title = JStr ''Matrices'',
               lesson_description = JStr ''b'', status = Locked, content = None,
               imageUrl = None, videoUrl = None, quiz = None, codingChallenges = None \<rparr>"
  let ?new = "[\<lparr> module_id = ''mod-1'', module_title = JStr ''Basics'',
                  module_description = JStr ''Start'', lessons = [?l0, ?l1] \<rparr>]"
  have new: "expandCourse ?c example_roadmap = Inr ?new"
    by code_simp
  have len: "length ?new = 1"
    by simp
  have x0: "lessonAt ?new 0 0 = Some ?l0"
    by (simp add: lessonAt_def)
  have one: "length (modules ?c) = 1" by code_simp
  from expand_appends [OF new, of example_app] x0 one len show ?thesis by auto
qed

section \<open>Statuses under the handlers\<close>

lemma statusAt_updLesson:
  "map_option status (lessonAt (updLesson m l f ms) m' l') =
     (if m' = m \<and> l' = l then map_option (\<lambda>x. status (f x)) (lessonAt ms m l)
      else map_option status (lessonAt ms m' l'))"
  by (simp add: lessonAt_updLesson option.map_comp comp_def)

lemma statusAt_updLesson_keep:
  assumes "\<And>x. status (f x) = status x"
  shows "map_option status (lessonAt (updLesson m l f ms) m' l') = map_option status (lessonAt ms m' l')"
  by (simp add: statusAt_updLesson assms)

lemma loadLesson_statusAt [simp]:
  "statusAt (course_v (loadLesson g al v)) m l = statusAt (course_v v) m l"
  by (simp add: loadLesson_def Let_def statusAt_def statusAt_updLesson_keep
           split: option.splits)

lemma loadLesson_indices [simp]:
  "currentModuleIndex (course_v (loadLesson g al v)) = currentModuleIndex (course_v v)"
  "currentLessonIndex (course_v (loadLesson g al v)) = currentLessonIndex (course_v v)"
  by (simp_all add: loadLesson_def Let_def split: option.splits)

lemma lessonEffect_statusAt [simp]:
  "statusAt (course_v (lessonEffect g v)) m l = statusAt (course_v v) m l"
  by (simp add: lessonEffect_def Let_def split: option.splits)

lemma lessonEffect_indices [simp]:
  "currentModuleIndex (course_v (lessonEffect g v)) = currentModuleIndex (course_v v)"
  "currentLessonIndex (course_v (lessonEffect g v)) = currentLessonIndex (course_v v)"
  by (simp_all add: lessonEffect_def Let_def split: option.splits)

lemma handleLessonSelect_statusAt:
  "handleLessonSelect c m' l' = Inr (Some c') \<Longrightarrow> statusAt c' m l = statusAt c m l"
  by (auto simp: handleLessonSelect_def statusAt_def split: option.splits if_splits)

lemma selectLesson_statusAt [simp]:
  "statusAt (course_v (selectLesson g v m' l')) m l = statusAt (course_v v) m l"
  by (auto simp: selectLesson_def handleLessonSelect_statusAt split: sum.splits option.splits)

lemma moveToNextLesson_course_statusAt:
  "moveToNextLesson_course c = Inr (Some c') \<Longrightarrow> statusAt c' m l = statusAt c m l"
  by (auto simp: moveToNextLesson_course_def statusAt_def Let_def
           split: option.splits if_splits prod.splits)

lemma moveToNextLesson_statusAt [simp]:
  "statusAt (course_v (moveToNextLesson g v)) m l = statusAt (course_v v) m l"
  by (auto simp: moveToNextLesson_def moveToNextLesson_course_statusAt
           split: sum.splits option.splits)

lemma markLessonCompleted_Inr:
  "markLessonCompleted c = Inr c' \<Longrightarrow>
     lessonAt (modules c) (currentModuleIndex c) (currentLessonIndex c) \<noteq> None \<and>
     c' = c\<lparr> modules := updLesson (currentModuleIndex c) (currentLessonIndex c)
                            (\<lambda>x. x\<lparr> status := Completed \<rparr>) (modules c) \<rparr>"
  by (auto simp: markLessonCompleted_def activeLesson_def split: option.splits)

lemma markLessonCompleted_statusAt:
  assumes "markLessonCompleted c = Inr c'"
  shows "statusAt c' m l =
       (if m = currentModuleIndex c \<and> l = currentLessonIndex c then Some Completed
        else statusAt c m l)"
proof -
  from markLessonCompleted_Inr [OF assms] obtain x where
    x: "lessonAt (modules c) (currentModuleIndex c) (currentLessonIndex c) = Some x"
    and c': "c' = c\<lparr> modules := updLesson (currentModuleIndex c) (currentLessonIndex c)
                            (\<lambda>x. x\<lparr> status := Completed \<rparr>) (modules c) \<rparr>"
    by auto
  show ?thesis
    by (simp add: c' statusAt_def statusAt_updLesson x)
qed

lemma markLessonCompleted_lessonAt:
  "markLessonCompleted c = Inr c' \<Longrightarrow>
     lessonAt (modules c') m l =
       (if m = currentModuleIndex c \<and> l = currentLessonIndex c
        then map_option (\<lambda>x. x\<lparr> status := Completed \<rparr>) (lessonAt (modules c) m l)
        else lessonAt (modules c) m l) \<and>
     currentModuleIndex c' = currentModuleIndex c \<and>
     currentLessonIndex c' = currentLessonIndex c"
  by (auto simp: markLessonCompleted_def lessonAt_updLesson split: option.splits)

lemma markLessonCompleted_Inl:
  "markLessonCompleted c = Inl e \<Longrightarrow> lessonAt (modules c) (currentModuleIndex c) (currentLessonIndex c) = None"
  by (auto simp: markLessonCompleted_def activeLesson_def split: option.splits)

lemma nextPosition_updLesson [simp]:
  "nextPosition (updLesson m l f ms) cm cl = nextPosition ms cm cl"
  by (simp add: nextPosition_def)

lemma nextPosition_neq: "nextPosition ms cm cl \<noteq> (cm, cl)"
  by (simp add: nextPosition_def)

lemma submitQuiz_course_Inr:
  assumes "submitQuiz_course c = Inr c'"
  shows "lessonAt (modules c) (currentModuleIndex c) (currentLessonIndex c) \<noteq> None"
    and "c' = c\<lparr> modules :=
            updLesson (fst (nextPosition (modules c) (currentModuleIndex c) (currentLessonIndex c)))
                      (snd (nextPosition (modules c) (currentModuleIndex c) (currentLessonIndex c)))
                      (\<lambda>x. x\<lparr> status := Unlocked \<rparr>)
              (updLesson (currentModuleIndex c) (currentLessonIndex c)
                         (\<lambda>x. x\<lparr> status := Completed \<rparr>) (modules c)) \<rparr>"
proof -
  show "lessonAt (modules c) (currentModuleIndex c) (currentLessonIndex c) \<noteq> None"
    using assms by (auto simp: submitQuiz_course_def activeLesson_def split: option.splits)
  have beyond: "updLesson m l f ms = ms" if "\<not> (m < length ms \<and> l < length (lessons (ms ! m)))"
    for m l f and ms :: "module_rec list"
    using that by (cases "m < length ms") (auto simp: updLesson_def list_update_beyond)
  show "c' = c\<lparr> modules :=
            updLesson (fst (nextPosition (modules c) (currentModuleIndex c) (currentLessonIndex c)))
                      (snd (nextPosition (modules c) (currentModuleIndex c) (currentLessonIndex c)))
                      (\<lambda>x. x\<lparr> status := Unlocked \<rparr>)
              (updLesson (currentModuleIndex c) (currentLessonIndex c)
                         (\<lambda>x. x\<lparr> status := Completed \<rparr>) (modules c)) \<rparr>"
    using assms
    by (auto simp: submitQuiz_course_def Let_def beyond split: option.splits prod.splits)
qed

lemma submitQuiz_course_statusAt:
  assumes "submitQuiz_course c = Inr c'"
  shows "statusAt c' m l =
       (if (m, l) = nextPosition (modules c) (currentModuleIndex c) (currentLessonIndex c)
        then map_option (\<lambda>s. Unlocked) (statusAt c m l)
        else if m = currentModuleIndex c \<and> l = currentLessonIndex c then Some Completed
        else statusAt c m l)"
proof -
  obtain nm nl where
    np: "nextPosition (modules c) (currentModuleIndex c) (currentLessonIndex c) = (nm, nl)"
    by (cases "nextPosition (modules c) (currentModuleIndex c) (currentLessonIndex c)")
  from submitQuiz_course_Inr [OF assms] np obtain x where
    x: "lessonAt (modules c) (currentModuleIndex c) (currentLessonIndex c) = Some x"
    and c': "c' = c\<lparr> modules :=
            updLesson nm nl (\<lambda>x. x\<lparr> status := Unlocked \<rparr>)
              (updLesson (currentModuleIndex c) (currentLessonIndex c)
                         (\<lambda>x. x\<lparr> status := Completed \<rparr>) (modules c)) \<rparr>"
    by auto
  have ne: "\<not> (nm = currentModuleIndex c \<and> nl = currentLessonIndex c)"
    using nextPosition_neq [of "modules c" "currentModuleIndex c" "currentLessonIndex c"] np
    by auto
  show ?thesis
  proof (cases "m = nm \<and> l = nl")
    case True
    with ne show ?thesis
      by (simp add: c' np statusAt_def statusAt_updLesson lessonAt_updLesson
               option.map_comp comp_def)
  next
    case False
    then show ?thesis
      by (auto simp: c' np statusAt_def statusAt_updLesson x)
  qed
qed

section \<open>Skipping a lesson\<close>

lemma handleSkipToPractice_course:
  "currentModuleIndex (course_v (handleSkipToPractice v)) = currentModuleIndex (course_v v) \<and>
   currentLessonIndex (course_v (handleSkipToPractice v)) = currentLessonIndex (course_v v) \<and>
   lessonAt (modules (course_v (handleSkipToPractice v))) m l =
     (if m = currentModuleIndex (course_v v) \<and> l = currentLessonIndex (course_v v)
      then map_option (\<lambda>x. x\<lparr> status := Completed \<rparr>) (lessonAt (modules (course_v v)) m l)
      else lessonAt (modules (course_v v)) m l)"
proof (cases "markLessonCompleted (course_v v)")
  case (Inl e)
  then have "handleSkipToPractice v = v"
    by (simp add: handleSkipToPractice_def)
  with markLessonCompleted_Inl [OF Inl] show ?thesis by simp
next
  case (Inr c')
  then have "course_v (handleSkipToPractice v) = c'"
    by (simp add: handleSkipToPractice_def)
  with markLessonCompleted_lessonAt [OF Inr, of m l] show ?thesis by simp
qed

lemma handleSkipToPractice_statusAt:
  "statusAt (course_v (handleSkipToPractice v)) m l = statusAt (course_v v) m l \<or>
   statusAt (course_v (handleSkipToPractice v)) m l = Some Completed"
proof (cases "markLessonCompleted (course_v v)")
  case (Inl e)
  then show ?thesis by (simp add: handleSkipToPractice_def)
next
  case (Inr c')
  then have "course_v (handleSkipToPractice v) = c'"
    by (simp add: handleSkipToPractice_def)
  with markLessonCompleted_statusAt [OF Inr, of m l] show ?thesis by auto
qed

lemma step_statusAt:
  assumes "e \<noteq> SubmitQuiz"
  shows "statusAt (course_v (step g v e)) m l = statusAt (course_v v) m l \<or>
         statusAt (course_v (step g v e)) m l = Some Completed"
proof (cases e)
  case SkipToPractice
  then show ?thesis using handleSkipToPractice_statusAt [of v m l] by simp
next
  case SubmitQuiz
  with assms show ?thesis by simp
qed (simp_all add: toggleModule_def handleQuizAnswer_def)

text \<open>
  Claim C10.  The skip action leaves the current module and lesson indices as they are
  and changes no lesson but the active one, whose status becomes completed; it unlocks
  nothing.  No action of the view other than submitting the quiz gives a lesson the
  status unlocked.
\<close>

theorem skip_completes_only_active_lesson:
  "currentModuleIndex (course_v (handleSkipToPractice v)) = currentModuleIndex (course_v v) \<and>
   currentLessonIndex (course_v (handleSkipToPractice v)) = currentLessonIndex (course_v v) \<and>
   lessonAt (modules (course_v (handleSkipToPractice v))) m l =
     (if m = currentModuleIndex (course_v v) \<and> l = currentLessonIndex (course_v v)
      then map_option (\<lambda>x. x\<lparr> status := Completed \<rparr>) (lessonAt (modules (course_v v)) m l)
      else lessonAt (modules (course_v v)) m l) \<and>
   (e \<noteq> SubmitQuiz \<and> statusAt (course_v v) m l \<noteq> Some Unlocked \<longrightarrow>
      statusAt (course_v (step g v e)) m l \<noteq> Some Unlocked)"
proof -
  have "statusAt (course_v (step g v e)) m l \<noteq> Some Unlocked"
    if "e \<noteq> SubmitQuiz" and "statusAt (course_v v) m l \<noteq> Some Unlocked"
    using step_statusAt [OF that(1), of g v m l] that(2) by auto
  with handleSkipToPractice_course [of v m l] show ?thesis by blast
qed

theorem skip_completes_only_active_lesson_witness:
  "SkipToPractice \<noteq> SubmitQuiz \<and>
   statusAt (course_v example_view) 0 1 = Some Locked \<and>
   statusAt (course_v (step example_gen example_view SkipToPractice)) 0 1 \<noteq> Some Unlocked \<and>
   lessonAt (modules (course_v (handleSkipToPractice example_view))) 0 1 =
     lessonAt (modules (course_v example_view)) 0 1"
proof -
  have h: "statusAt (course_v example_view) 0 1 = Some Locked"
    by code_simp
  have i: "currentLessonIndex (course_v example_view) = 0"
    by code_simp
  from skip_completes_only_active_lesson [of example_view 0 1 SkipToPractice example_gen] h i
  show ?thesis by simp
qed

section \<open>Selecting a lesson\<close>

lemma loadLesson_viewStage [simp]: "viewStage (loadLesson g al v) = READING"
  by (simp add: loadLesson_def Let_def split: option.splits)

lemma loadLesson_active_id [simp]:
  "map_option lesson_id (activeLesson (course_v (loadLesson g al v))) =
     map_option lesson_id (activeLesson (course_v v))"
  by (simp add: loadLesson_def Let_def activeLesson_def lessonAt_updLesson
                option.map_comp comp_def split: option.splits)

lemma lessonEffect_cases:
  "lessonEffect g v = v \<or>
   lessonEffect g v = v\<lparr> lessonDep := map_option lesson_id (activeLesson (course_v v)) \<rparr> \<or>
   (\<exists>al. activeLesson (course_v v) = Some al \<and> status al \<noteq> Locked \<and>
         Some (lesson_id al) \<noteq> lessonDep v \<and>
         lessonEffect g v = loadLesson g al (v\<lparr> lessonDep := Some (lesson_id al) \<rparr>))"
  by (cases "activeLesson (course_v v)") (simp_all add: lessonEffect_def Let_def)

lemma lessonEffect_active_id [simp]:
  "map_option lesson_id (activeLesson (course_v (lessonEffect g v))) =
     map_option lesson_id (activeLesson (course_v v))"
  using lessonEffect_cases [of g v] by (elim disjE exE conjE) simp_all

lemma lessonEffect_activeLesson [simp]:
  "activeLesson (course_v (lessonEffect g v)) = None \<longleftrightarrow> activeLesson (course_v v) = None"
  using lessonEffect_active_id [of g v] by (metis option.map_disc_iff)

lemma lessonEffect_viewStage:
  assumes "activeLesson (course_v v) = Some t" and "status t \<noteq> Locked"
  shows "viewStage (lessonEffect g v) =
           (if Some (lesson_id t) = lessonDep v then viewStage v else READING)"
  using assms by (auto simp: lessonEffect_def Let_def)

section \<open>Submitting the quiz\<close>

lemma length_filter_full:
  assumes "length xs \<le> n"
  shows "length (filter P xs) = n \<longleftrightarrow> (\<forall>i<n. i < length xs \<and> P (xs ! i))"
proof
  assume eq: "length (filter P xs) = n"
  have le: "length (filter P xs) \<le> length xs" by simp
  with eq assms have len: "length xs = n" by simp
  have "\<forall>x\<in>set xs. P x"
  proof (rule ccontr)
    assume "\<not> (\<forall>x\<in>set xs. P x)"
    then obtain x where "x \<in> set xs" and "\<not> P x" by blast
    then have "length (filter P xs) < length xs" by (rule length_filter_less)
    with eq len show False by simp
  qed
  with len show "\<forall>i<n. i < length xs \<and> P (xs ! i)" by simp
next
  assume all: "\<forall>i<n. i < length xs \<and> P (xs ! i)"
  have len: "length xs = n"
  proof (cases n)
    case 0
    with assms show ?thesis by simp
  next
    case (Suc k)
    with all have "k < length xs" by simp
    with Suc assms show ?thesis by simp
  qed
  with all have "\<forall>x\<in>set xs. P x" by (auto simp: in_set_conv_nth)
  then have "filter P xs = xs" by simp
  with len show "length (filter P xs) = n" by simp
qed

lemma isAllAnswered_iff:
  assumes "answersBounded v"
  shows "isAllAnswered v =
           (case js_length (quiz_v v) of
              None \<Rightarrow> False
            | Some n \<Rightarrow> 0 < n \<and> (\<forall>i<n. i < length (quizAnswers v) \<and> quizAnswers v ! i \<noteq> None))"
proof (cases "js_length (quiz_v v)")
  case None
  then show ?thesis by (simp add: isAllAnswered_def)
next
  case (Some n)
  with assms have "length (quizAnswers v) \<le> n" by (simp add: answersBounded_def)
  from length_filter_full [OF this, of "\<lambda>a. a \<noteq> None"] Some show ?thesis
    by (simp add: isAllAnswered_def)
qed

lemma answersBounded_same:
  "quiz_v v' = quiz_v v \<Longrightarrow> quizAnswers v' = quizAnswers v \<Longrightarrow>
     answersBounded v' = answersBounded v"
  by (simp add: answersBounded_def split: option.splits)

lemma loadLesson_answersBounded [simp]: "answersBounded (loadLesson g al v)"
  by (simp add: loadLesson_def Let_def answersBounded_def split: option.splits)

lemma lessonEffect_answersBounded:
  assumes "answersBounded v"
  shows "answersBounded (lessonEffect g v)"
proof -
  have "answersBounded (v\<lparr> lessonDep := d \<rparr>) = answersBounded v" for d
    by (rule answersBounded_same) simp_all
  with assms lessonEffect_cases [of g v] show ?thesis
    by (elim disjE exE conjE) simp_all
qed

lemma lessonEffect_course_answersBounded:
  assumes "answersBounded v"
  shows "answersBounded (lessonEffect g (v\<lparr> course_v := c \<rparr>))"
proof -
  have "answersBounded (v\<lparr> course_v := c \<rparr>) = answersBounded v"
    by (rule answersBounded_same) simp_all
  with assms show ?thesis by (simp add: lessonEffect_answersBounded)
qed

lemma length_set_answer: "length (set_answer xs q opt) = max (length xs) (Suc q)"
  by (simp add: set_answer_def)

lemma step_answersBounded:
  assumes "answersBounded v"
  shows "answersBounded (step g v e)"
proof (cases e)
  case (SelectLesson m l)
  then show ?thesis
    using assms
    by (simp add: selectLesson_def lessonEffect_course_answersBounded
             split: sum.splits option.splits)
next
  case (ToggleModule m)
  have "answersBounded (toggleModule v x) = answersBounded v" for x
    by (rule answersBounded_same) (simp_all add: toggleModule_def)
  with assms ToggleModule show ?thesis by simp
next
  case SkipToPractice
  have "answersBounded (handleSkipToPractice v) = answersBounded v"
    by (rule answersBounded_same) (simp_all add: handleSkipToPractice_def split: sum.splits)
  with assms SkipToPractice show ?thesis by simp
next
  case GoToPractice
  have "answersBounded (v\<lparr> viewStage := CHALLENGE \<rparr>) = answersBounded v"
    by (rule answersBounded_same) simp_all
  with assms GoToPractice show ?thesis by simp
next
  case BackToReading
  have "answersBounded (v\<lparr> viewStage := READING \<rparr>) = answersBounded v"
    by (rule answersBounded_same) simp_all
  with assms BackToReading show ?thesis by simp
next
  case ChallengesDone
  have "answersBounded (v\<lparr> viewStage := QUIZ \<rparr>) = answersBounded v"
    by (rule answersBounded_same) simp_all
  with assms ChallengesDone show ?thesis by simp
next
  case BackToChallenge
  have "answersBounded (v\<lparr> viewStage := CHALLENGE \<rparr>) = answersBounded v"
    by (rule answersBounded_same) simp_all
  with assms BackToChallenge show ?thesis by simp
next
  case (QuizAnswer q opt)
  show ?thesis
  proof (cases "viewStage v = QUIZ \<and> \<not> quizSubmitted v \<and> quizButton v q opt")
    case True
    then obtain qs where qs: "quiz_v v = JArr qs" and q: "q < length qs"
      by (auto simp: quizButton_def split: json.splits)
    with assms True QuizAnswer show ?thesis
      by (simp add: handleQuizAnswer_def answersBounded_def length_set_answer)
  next
    case False
    with assms QuizAnswer show ?thesis by auto
  qed
next
  case SubmitQuiz
  have "answersBounded (submitQuiz v) = answersBounded v"
    by (rule answersBounded_same)
       (simp_all add: submitQuiz_def Let_def split: sum.splits prod.splits)
  with assms SubmitQuiz show ?thesis by simp
next
  case NextLesson
  then show ?thesis
    using assms
    by (simp add: moveToNextLesson_def lessonEffect_course_answersBounded
             split: sum.splits option.splits)
qed

lemma run_answersBounded: "answersBounded v \<Longrightarrow> answersBounded (run g v es)"
  by (induction es arbitrary: v) (simp_all add: step_answersBounded)

lemma initialView_answersBounded [simp]: "answersBounded (initialView c x)"
  by (simp add: initialView_def answersBounded_def)

lemma mount_answersBounded: "mount g c = Inr v \<Longrightarrow> answersBounded v"
  by (auto simp: mount_def split: option.splits if_splits)

text \<open>
  Claim C3.  The button that submits the quiz is disabled unless the quiz is not empty
  and every question index below its length has a recorded answer; while it is disabled
  a submit action changes nothing and raises nothing.
\<close>

theorem submit_needs_all_answers:
  "(\<not> isAllAnswered v \<longrightarrow> step g v SubmitQuiz = v) \<and>
   (answersBounded v \<longrightarrow>
      isAllAnswered v =
        (case js_length (quiz_v v) of
           None \<Rightarrow> False
         | Some n \<Rightarrow> 0 < n \<and> (\<forall>i<n. i < length (quizAnswers v) \<and> quizAnswers v ! i \<noteq> None)))"
  using isAllAnswered_iff [of v] by simp

theorem submit_needs_all_answers_witness:
  "answersBounded example_view_quiz \<and> \<not> isAllAnswered example_view_quiz \<and>
   step example_gen example_view_quiz SubmitQuiz = example_view_quiz \<and>
   answersBounded example_view_submitted \<and>
   js_length (quiz_v example_view_submitted) = Some 1 \<and>
   quizAnswers example_view_submitted = [Some 0] \<and>
   isAllAnswered example_view_submitted"
proof -
  have b: "answersBounded example_view_quiz"
    by code_simp
  have n: "\<not> isAllAnswered example_view_quiz"
    by code_simp
  from submit_needs_all_answers [of example_view_quiz example_gen] n
  have disabled: "step example_gen example_view_quiz SubmitQuiz = example_view_quiz"
    by blast
  have b': "answersBounded example_view_submitted"
    by code_simp
  have len: "js_length (quiz_v example_view_submitted) = Some 1"
    by code_simp
  have ans: "quizAnswers example_view_submitted = [Some 0]"
    by code_simp
  from submit_needs_all_answers [of example_view_submitted example_gen] b'
  have "isAllAnswered example_view_submitted =
          (case js_length (quiz_v example_view_submitted) of
             None \<Rightarrow> False
           | Some n \<Rightarrow> 0 < n \<and> (\<forall>i<n. i < length (quizAnswers example_view_submitted) \<and>
                                      quizAnswers example_view_submitted ! i \<noteq> None))"
    by blast
  then have "isAllAnswered example_view_submitted"
    by (simp add: len ans)
  with b n disabled b' len ans show ?thesis by blast
qed

text \<open>
  The handler itself looks at neither the quiz nor the answers: called in the quiz of
  the first lesson with no answer recorded, it completes the lesson and unlocks the next.
\<close>

theorem submit_unchecked_counterexample:
  "\<not> isAllAnswered example_view_quiz \<and>
   statusAt (course_v example_view_quiz) 0 0 = Some Unlocked \<and>
   statusAt (course_v (submitQuiz example_view_quiz)) 0 0 = Some Completed \<and>
   statusAt (course_v example_view_quiz) 0 1 = Some Locked \<and>
   statusAt (course_v (submitQuiz example_view_quiz)) 0 1 = Some Unlocked"
  by code_simp

section \<open>A roadmap that cannot be read\<close>

lemma mapi_err_ok_iff:
  assumes "\<And>i x. x \<in> set xs \<Longrightarrow> (\<exists>y. f i x = Inr y) = P x"
  shows "(\<exists>ys. mapi_err f i xs = Inr ys) = list_all P xs"
  using assms
proof (induction xs arbitrary: i)
  case Nil
  then show ?case by simp
next
  case (Cons x xs)
  have hd: "(\<exists>y. f i x = Inr y) = P x"
    using Cons.prems by simp
  have tl: "(\<exists>ys. mapi_err f (Suc i) xs = Inr ys) = list_all P xs"
    using Cons.prems by (intro Cons.IH) simp
  show ?case
  proof (cases "f i x")
    case (Inl e)
    with hd show ?thesis by auto
  next
    case (Inr y)
    with hd tl show ?thesis by (auto split: sum.splits)
  qed
qed

lemma getprop_ok_iff: "(\<exists>y. getprop v k = Inr y) = (\<not> nullish v)"
  by (cases v) simp_all

lemma getprop_Inl: "getprop v k = Inl e \<Longrightarrow> nullish v"
  by (cases v) simp_all

lemma mk_lesson_ok_iff: "(\<exists>y. mk_lesson st mNo i l = Inr y) = (\<not> nullish l)"
  by (cases l) (simp_all add: mk_lesson_def)

lemma js_map_ok_iff:
  assumes "\<And>i x. (\<exists>y. f i x = Inr y) = P x"
  shows "(\<exists>ys. js_map f v = Inr ys) = (case v of JArr xs \<Rightarrow> list_all P xs | _ \<Rightarrow> False)"
  using mapi_err_ok_iff [of _ f P 0] assms
  by (cases v) (simp_all add: js_map_def)

lemma mk_module_ok_iff: "(\<exists>y. mk_module st base i m = Inr y) = module_readable m"
proof (cases "nullish m")
  case True
  then show ?thesis by (cases m) (simp_all add: mk_module_def module_readable_def)
next
  case False
  then obtain t d ls where p: "getprop m ''title'' = Inr t" "getprop m ''description'' = Inr d"
      "getprop m ''lessons'' = Inr ls"
    using getprop_ok_iff by blast
  have "(\<exists>ys. js_map (mk_lesson (st i) (base + i)) ls = Inr ys) =
          (case ls of JArr xs \<Rightarrow> list_all (\<lambda>l. \<not> nullish l) xs | _ \<Rightarrow> False)"
    by (rule js_map_ok_iff) (rule mk_lesson_ok_iff)
  with False p show ?thesis
    by (cases ls) (auto simp: mk_module_def module_readable_def split: sum.splits)
qed

lemma generateRoadmap_ok_iff: "(\<exists>ms. generateRoadmap r = Inr ms) = roadmap_readable r"
proof (cases "rawModules_of r")
  case (Inl e)
  then show ?thesis by (simp add: generateRoadmap_def roadmap_readable_def)
next
  case (Inr raw)
  have "(\<exists>ys. js_map (mk_module roadmap_status 0) raw = Inr ys) =
          (case raw of JArr xs \<Rightarrow> list_all module_readable xs | _ \<Rightarrow> False)"
    by (rule js_map_ok_iff) (rule mk_module_ok_iff)
  with Inr show ?thesis
    by (cases raw) (simp_all add: generateRoadmap_def roadmap_readable_def)
qed

lemma lesson_shape_readable: "lesson_shape l \<Longrightarrow> \<not> nullish l"
  by (cases l) simp_all

lemma module_shape_readable: "module_shape m \<Longrightarrow> module_readable m"
  by (cases m)
     (auto simp: module_readable_def list_all_iff lesson_shape_readable
           split: option.splits json.splits)

lemma roadmap_shape_readable: "roadmap_shape r \<Longrightarrow> roadmap_readable r"
  by (cases r rule: roadmap_shape.cases)
     (auto simp: roadmap_readable_def rawModules_of_def list_all_iff module_shape_readable)

text \<open>
  Claim C7.  When the last clarifying answer is given and \<open>generateRoadmap\<close> throws, no
  course is added to the list, the active course id stays as it was and the application
  is back in its initial state.  \<open>generateRoadmap\<close> throws exactly on the answers it
  cannot read to the end: the gateway call fails, the text is not JSON, the module list
  found is not an array, a module or a lesson is \<open>null\<close>, or a module has no array of
  lessons.  An answer of the shape asked for never makes it throw.
\<close>

theorem roadmap_failure_resets_flow:
  "((\<exists>e. generateRoadmap r = Inl e) = (\<not> roadmap_readable r)) \<and>
   (roadmap_shape r \<longrightarrow> roadmap_readable r) \<and>
   (\<not> roadmap_readable r \<and>
    length (questions (clarification a)) \<le> currentQuestionIndex (clarification a) + 1 \<longrightarrow>
      courses (handleClarificationAnswer now1 now2 r answer a) = courses a \<and>
      activeCourseId (handleClarificationAnswer now1 now2 r answer a) = activeCourseId a \<and>
      appState (handleClarificationAnswer now1 now2 r answer a) = INITIAL)"
proof -
  have iff: "(\<exists>e. generateRoadmap r = Inl e) = (\<not> roadmap_readable r)"
    using generateRoadmap_ok_iff [of r] by (cases "generateRoadmap r") auto
  have "courses (handleClarificationAnswer now1 now2 r answer a) = courses a \<and>
        activeCourseId (handleClarificationAnswer now1 now2 r answer a) = activeCourseId a \<and>
        appState (handleClarificationAnswer now1 now2 r answer a) = INITIAL"
    if "\<not> roadmap_readable r"
      and "length (questions (clarification a)) \<le> currentQuestionIndex (clarification a) + 1"
  proof -
    from that(1) iff obtain e where "generateRoadmap r = Inl e" by blast
    with that(2) show ?thesis
      by (simp add: handleClarificationAnswer_def Let_def)
  qed
  with iff roadmap_shape_readable show ?thesis by blast
qed

theorem roadmap_failure_resets_flow_witness:
  "\<not> roadmap_readable (Parsed (JObj [(''modules'', JNum 3)])) \<and>
   generateRoadmap (Parsed (JObj [(''modules'', JNum 3)])) = Inl TypeError \<and>
   length (questions (clarification example_app))
     \<le> currentQuestionIndex (clarification example_app) + 1 \<and>
   courses (handleClarificationAnswer 1 1 (Parsed (JObj [(''modules'', JNum 3)])) ''none'' example_app) =
     courses example_app \<and>
   appState (handleClarificationAnswer 1 1 (Parsed (JObj [(''modules'', JNum 3)])) ''none'' example_app) =
     INITIAL \<and>
   roadmap_shape example_roadmap \<and> roadmap_readable example_roadmap"
proof -
  let ?r = "Parsed (JObj [(''modules'', JNum 3)])"
  have h1: "\<not> roadmap_readable ?r"
    by code_simp
  have h2: "length (questions (clarification example_app))
              \<le> currentQuestionIndex (clarification example_app) + 1"
    by code_simp
  have e: "generateRoadmap ?r = Inl TypeError"
    by code_simp
  from roadmap_failure_resets_flow [of ?r example_app 1 1 "''none''"] h1 h2
  have reset:
    "courses (handleClarificationAnswer 1 1 ?r ''none'' example_app) = courses example_app \<and>
     appState (handleClarificationAnswer 1 1 ?r ''none'' example_app) = INITIAL"
    by blast
  have sh: "roadmap_shape example_roadmap"
    by code_simp
  from roadmap_failure_resets_flow [of example_roadmap example_app 1 1 "''none''"] sh
  have "roadmap_readable example_roadmap"
    by blast
  with h1 e h2 reset sh show ?thesis by blast
qed

text \<open>
  An answer whose module has neither title nor description is not of the shape asked
  for, yet a course is created from it and becomes the active one.
\<close>

theorem roadmap_shape_counterexample:
  "\<not> roadmap_shape untitled_roadmap \<and>
   length (courses (handleClarificationAnswer 1 1 untitled_roadmap ''none'' example_app)) =
     Suc (length (courses example_app)) \<and>
   activeCourseId (handleClarificationAnswer 1 1 untitled_roadmap ''none'' example_app) =
     Some ''course-1'' \<and>
   appState (handleClarificationAnswer 1 1 untitled_roadmap ''none'' example_app) = LEARNING"
  by code_simp

section \<open>The lesson cache\<close>

lemma loadLesson_cached:
  assumes "nonempty (content al) = Some text"
    and "nonempty (imageUrl al) \<noteq> None \<or> nonempty (videoUrl al) \<noteq> None"
  shows "loadLesson g al v =
           v\<lparr> viewStage := READING, quizSubmitted := False, quizAnswers := [],
              generatedImage := nonempty (imageUrl al), content_v := text,
              quiz_v := json_or_empty (quiz al),
              challenges := json_or_empty (codingChallenges al) \<rparr>"
  using assms by (auto simp: loadLesson_def Let_def)

lemma loadLesson_uncached:
  assumes "nonempty (content al) = None"
  shows "gatewayCalls (loadLesson g al v) =
           gatewayCalls v @ [CallContent, CallQuiz, CallChallenges, CallIllustration]"
    and "lessonAt (modules (course_v (loadLesson g al v))) m l =
           (if m = currentModuleIndex (course_v v) \<and> l = currentLessonIndex (course_v v)
            then map_option
                   (\<lambda>x. x\<lparr> content := Some (generateLessonContent (lessonText g)),
                            quiz := Some (generateQuiz (quizReply g)),
                            codingChallenges := Some (generateCodingChallenges (challengesReply g)),
                            imageUrl := nonempty (generateLessonIllustration (illustration g)) \<rparr>)
                   (lessonAt (modules (course_v v)) m l)
            else lessonAt (modules (course_v v)) m l)"
  using assms by (simp_all add: loadLesson_def Let_def lessonAt_updLesson)

lemma nonempty_illustration:
  "illustration g \<noteq> None \<Longrightarrow> nonempty (generateLessonIllustration (illustration g)) \<noteq> None"
  by (auto simp: nonempty_def generateLessonIllustration_def)

text \<open>
  Claim C5.  Loading a lesson whose content is cached (not empty) and that has an
  illustration or a video calls the gateway for nothing, leaves the course as it is and
  shows the cached content, quiz, challenges and illustration.  Loading a lesson without
  content calls each of the four gateway operations once; if the text returned is not
  empty and an illustration is returned, the lesson is cached, and loading it again
  makes no further call and leaves the course as it is, so that each operation was
  called exactly once over both loads.
\<close>

theorem cached_lesson_not_regenerated:
  "(nonempty (content al) = Some text \<and>
    (nonempty (imageUrl al) \<noteq> None \<or> nonempty (videoUrl al) \<noteq> None) \<longrightarrow>
      gatewayCalls (loadLesson g al v) = gatewayCalls v \<and>
      course_v (loadLesson g al v) = course_v v \<and>
      content_v (loadLesson g al v) = text \<and>
      quiz_v (loadLesson g al v) = json_or_empty (quiz al) \<and>
      challenges (loadLesson g al v) = json_or_empty (codingChallenges al) \<and>
      generatedImage (loadLesson g al v) = nonempty (imageUrl al)) \<and>
   (activeLesson (course_v v) = Some al \<and> nonempty (content al) = None \<and>
    generateLessonContent (lessonText g) \<noteq> [] \<and> illustration g \<noteq> None \<longrightarrow>
      (\<exists>al'. activeLesson (course_v (loadLesson g al v)) = Some al' \<and>
             content al' = Some (generateLessonContent (lessonText g)) \<and>
             quiz al' = Some (generateQuiz (quizReply g)) \<and>
             codingChallenges al' = Some (generateCodingChallenges (challengesReply g)) \<and>
             imageUrl al' = generateLessonIllustration (illustration g) \<and>
             gatewayCalls (loadLesson g' al' (loadLesson g al v)) =
               gatewayCalls v @ [CallContent, CallQuiz, CallChallenges, CallIllustration] \<and>
             course_v (loadLesson g' al' (loadLesson g al v)) = course_v (loadLesson g al v)))"
proof -
  have cached:
    "gatewayCalls (loadLesson g al v) = gatewayCalls v \<and>
     course_v (loadLesson g al v) = course_v v \<and>
     content_v (loadLesson g al v) = text \<and>
     quiz_v (loadLesson g al v) = json_or_empty (quiz al) \<and>
     challenges (loadLesson g al v) = json_or_empty (codingChallenges al) \<and>
     generatedImage (loadLesson g al v) = nonempty (imageUrl al)"
    if "nonempty (content al) = Some text"
      and "nonempty (imageUrl al) \<noteq> None \<or> nonempty (videoUrl al) \<noteq> None"
    by (simp add: loadLesson_cached [OF that])
  have twice:
    "\<exists>al'. activeLesson (course_v (loadLesson g al v)) = Some al' \<and>
           content al' = Some (generateLessonContent (lessonText g)) \<and>
           quiz al' = Some (generateQuiz (quizReply g)) \<and>
           codingChallenges al' = Some (generateCodingChallenges (challengesReply g)) \<and>
           imageUrl al' = generateLessonIllustration (illustration g) \<and>
           gatewayCalls (loadLesson g' al' (loadLesson g al v)) =
             gatewayCalls v @ [CallContent, CallQuiz, CallChallenges, CallIllustration] \<and>
           course_v (loadLesson g' al' (loadLesson g al v)) = course_v (loadLesson g al v)"
    if act: "activeLesson (course_v v) = Some al" and un: "nonempty (content al) = None"
      and nonempty_text: "generateLessonContent (lessonText g) \<noteq> []" and img: "illustration g \<noteq> None"
  proof -
    let ?v1 = "loadLesson g al v"
    let ?al' = "al\<lparr> content := Some (generateLessonContent (lessonText g)),
                     quiz := Some (generateQuiz (quizReply g)),
                     codingChallenges := Some (generateCodingChallenges (challengesReply g)),
                     imageUrl := nonempty (generateLessonIllustration (illustration g)) \<rparr>"
    have a1: "activeLesson (course_v ?v1) = Some ?al'"
      using act loadLesson_uncached(2) [OF un, of g v]
      by (simp add: activeLesson_def)
    have c: "nonempty (content ?al') = Some (generateLessonContent (lessonText g))"
      using nonempty_text by (simp add: nonempty_def)
    have i: "nonempty (imageUrl ?al') \<noteq> None"
      using nonempty_illustration [OF img]
      by (auto simp: nonempty_def split: option.splits if_splits)
    have i': "imageUrl ?al' = generateLessonIllustration (illustration g)"
      using img by (auto simp: nonempty_def generateLessonIllustration_def)
    have "gatewayCalls (loadLesson g' ?al' ?v1) = gatewayCalls ?v1"
      and "course_v (loadLesson g' ?al' ?v1) = course_v ?v1"
      using i by (simp_all add: loadLesson_cached [OF c])
    with loadLesson_uncached(1) [OF un, of g v] a1 i' show ?thesis
      by simp
  qed
  from cached twice show ?thesis by blast
qed

theorem cached_lesson_not_regenerated_witness:
  "nonempty (content example_lesson_loaded) = Some ''text'' \<and>
   nonempty (imageUrl example_lesson_loaded) \<noteq> None \<and>
   gatewayCalls (loadLesson example_gen example_lesson_loaded example_view_quiz) =
     gatewayCalls example_view_quiz \<and>
   course_v (loadLesson example_gen example_lesson_loaded example_view_quiz) =
     course_v example_view_quiz \<and>
   nonempty (content (example_lesson 0 ''Vectors'' ''a'' Unlocked)) = None \<and>
   (\<exists>al'. activeLesson (course_v example_view) = Some al' \<and>
          gatewayCalls (loadLesson example_gen_no_quiz al' example_view) =
            [CallContent, CallQuiz, CallChallenges, CallIllustration])"
proof -
  let ?al = "example_lesson 0 ''Vectors'' ''a'' Unlocked"
  let ?v = "initialView (example_course Unlocked Locked) ''mod-0''"
  have c: "nonempty (content example_lesson_loaded) = Some ''text''"
    by code_simp
  have i: "nonempty (imageUrl example_lesson_loaded) \<noteq> None"
    by code_simp
  from cached_lesson_not_regenerated
         [of example_lesson_loaded "''text''" example_gen example_view_quiz] c i
  have first: "gatewayCalls (loadLesson example_gen example_lesson_loaded example_view_quiz) =
                 gatewayCalls example_view_quiz \<and>
               course_v (loadLesson example_gen example_lesson_loaded example_view_quiz) =
                 course_v example_view_quiz"
    by blast
  have a: "activeLesson (course_v ?v) = Some ?al"
    by code_simp
  have u: "nonempty (content ?al) = None"
    by code_simp
  have t: "generateLessonContent (lessonText example_gen) \<noteq> []"
    by code_simp
  have p: "illustration example_gen \<noteq> None"
    by code_simp
  have e: "gatewayCalls ?v = []"
    by code_simp
  from cached_lesson_not_regenerated [of ?al _ example_gen ?v example_gen_no_quiz] a u t p
  obtain al' where "activeLesson (course_v (loadLesson example_gen ?al ?v)) = Some al'"
    and "gatewayCalls (loadLesson example_gen_no_quiz al' (loadLesson example_gen ?al ?v)) =
           gatewayCalls ?v @ [CallContent, CallQuiz, CallChallenges, CallIllustration]"
    by blast
  then have "\<exists>al'. activeLesson (course_v example_view) = Some al' \<and>
          gatewayCalls (loadLesson example_gen_no_quiz al' example_view) =
            [CallContent, CallQuiz, CallChallenges, CallIllustration]"
    unfolding example_view_def e by simp
  with c i first u show ?thesis by blast
qed

section \<open>Statuses that go back\<close>

lemma example_view_mounted:
  "courses (handleClarificationAnswer 1 1 example_roadmap ''none'' example_app) =
     [example_course Unlocked Locked] \<and>
   mount example_gen (example_course Unlocked Locked) = Inr example_view \<and>
   mount example_gen_no_quiz (example_course Unlocked Locked) = Inr example_view_no_quiz"
  by code_simp

lemma submitQuiz_course_indices:
  "submitQuiz_course c = Inr c' \<Longrightarrow>
     currentModuleIndex c' = currentModuleIndex c \<and> currentLessonIndex c' = currentLessonIndex c"
  using submitQuiz_course_Inr(2) [of c c'] by simp

lemma submitQuiz_statusAt:
  "statusAt (course_v (submitQuiz v)) m l =
     (case submitQuiz_course (course_v v) of
        Inl e \<Rightarrow> statusAt (course_v v) m l
      | Inr c' \<Rightarrow> statusAt c' m l)"
  by (simp add: submitQuiz_def Let_def split: sum.splits prod.splits)

lemma submitQuiz_course_status_cases:
  assumes "submitQuiz_course c = Inr c'"
  shows "statusAt c' m l = statusAt c m l \<or> statusAt c' m l = Some Completed \<or>
         statusAt c' m l = Some Unlocked"
  using submitQuiz_course_statusAt [OF assms, of m l]
  by (cases "statusAt c m l") (simp_all split: if_splits)

lemma step_never_locks:
  assumes "statusAt (course_v (step g v e)) m l = Some Locked"
  shows "statusAt (course_v v) m l = Some Locked"
proof (cases "e = SubmitQuiz")
  case False
  from step_statusAt [OF False, of g v m l] assms show ?thesis by auto
next
  case True
  show ?thesis
  proof (cases "viewStage v = QUIZ \<and> \<not> quizSubmitted v \<and> isAllAnswered v")
    case False
    with True assms show ?thesis by auto
  next
    case enabled: True
    show ?thesis
    proof (cases "submitQuiz_course (course_v v)")
      case (Inl err)
      with True enabled assms show ?thesis by (simp add: submitQuiz_statusAt)
    next
      case (Inr c')
      with True enabled assms have "statusAt c' m l = Some Locked"
        by (simp add: submitQuiz_statusAt)
      with submitQuiz_course_status_cases [OF Inr, of m l] show ?thesis
        by auto
    qed
  qed
qed

text \<open>
  Claim C1.  In the fresh course of one module and two lessons, the user completes the
  first lesson by its quiz and the second by skipping it, so that both are completed,
  then selects the first lesson again and submits its quiz once more: the second lesson
  is unlocked again, no longer completed.
\<close>

theorem completed_lesson_reverts_to_unlocked:
  "statuses (course_v example_view) = [[Unlocked, Locked]] \<and>
   statuses (course_v (run example_gen example_view complete_both)) =
     [[Completed, Completed]] \<and>
   statuses (course_v (run example_gen example_view (complete_both @ resubmit_first))) =
     [[Completed, Unlocked]]"
  by code_simp

text \<open>
  Claim C2.  When both lessons are completed and the first is the current one,
  \<open>submitQuiz\<close> leaves the current indices and the first lesson as they are and sets the
  second lesson, which is the next one, from completed to unlocked.
\<close>

theorem submit_unlocks_completed_next:
  "statuses (example_course Completed Completed) = [[Completed, Completed]] \<and>
   nextPosition (modules (example_course Completed Completed)) 0 0 = (0, 1) \<and>
   map_sum id statuses (submitQuiz_course (example_course Completed Completed)) =
     Inr [[Completed, Unlocked]] \<and>
   map_sum id currentLessonIndex (submitQuiz_course (example_course Completed Completed)) = Inr 0"
  by code_simp

section \<open>A lesson without a quiz\<close>

lemma loadLesson_lessonDep [simp]: "lessonDep (loadLesson g al v) = lessonDep v"
  by (simp add: loadLesson_def Let_def split: option.splits)

lemma lessonEffect_settled [simp]: "settled (lessonEffect g v)"
proof (cases "map_option lesson_id (activeLesson (course_v v)) = lessonDep v")
  case True
  then show ?thesis by (simp add: lessonEffect_def settled_def)
next
  case False
  then show ?thesis
    by (cases "activeLesson (course_v v)") (simp_all add: lessonEffect_def settled_def Let_def)
qed

lemma active_id_updLesson:
  assumes "\<And>x. lesson_id (f x) = lesson_id x"
  shows "map_option lesson_id (lessonAt (updLesson m l f ms) m' l') =
           map_option lesson_id (lessonAt ms m' l')"
  by (simp add: lessonAt_updLesson option.map_comp comp_def assms)

lemma markLessonCompleted_active_id:
  "markLessonCompleted c = Inr c' \<Longrightarrow>
     map_option lesson_id (activeLesson c') = map_option lesson_id (activeLesson c)"
  using markLessonCompleted_Inr [of c c']
  by (simp add: activeLesson_def active_id_updLesson)

lemma submitQuiz_course_active_id:
  "submitQuiz_course c = Inr c' \<Longrightarrow>
     map_option lesson_id (activeLesson c') = map_option lesson_id (activeLesson c)"
  using submitQuiz_course_Inr(2) [of c c']
  by (simp add: activeLesson_def active_id_updLesson)

lemma handleSkipToPractice_settled:
  "settled v \<Longrightarrow> settled (handleSkipToPractice v)"
  by (auto simp: handleSkipToPractice_def settled_def markLessonCompleted_active_id
           split: sum.splits)

lemma submitQuiz_settled: "settled v \<Longrightarrow> settled (submitQuiz v)"
  by (auto simp: submitQuiz_def Let_def settled_def submitQuiz_course_active_id
           split: sum.splits prod.splits)

lemma step_settled:
  assumes "settled v"
  shows "settled (step g v e)"
proof (cases e)
  case (SelectLesson m l)
  with assms show ?thesis
    by (simp add: selectLesson_def split: sum.splits option.splits)
next
  case SkipToPractice
  with assms show ?thesis by (simp add: handleSkipToPractice_settled)
next
  case SubmitQuiz
  with assms show ?thesis by (simp add: submitQuiz_settled)
next
  case NextLesson
  with assms show ?thesis
    by (simp add: moveToNextLesson_def split: sum.splits option.splits)
qed (use assms in \<open>simp_all add: settled_def toggleModule_def handleQuizAnswer_def\<close>)

lemma handleSkipToPractice_other:
  assumes "(m, l) \<noteq> (currentModuleIndex (course_v v), currentLessonIndex (course_v v))"
  shows "statusAt (course_v (handleSkipToPractice v)) m l = statusAt (course_v v) m l"
  using handleSkipToPractice_course [of v m l] assms by (auto simp: statusAt_def)

lemma blocked_step:
  assumes "blocked v"
  shows "blocked (step g v e) \<and>
         currentModuleIndex (course_v (step g v e)) = currentModuleIndex (course_v v) \<and>
         currentLessonIndex (course_v (step g v e)) = currentLessonIndex (course_v v) \<and>
         (\<forall>m l. (m, l) \<noteq> (currentModuleIndex (course_v v), currentLessonIndex (course_v v)) \<longrightarrow>
                statusAt (course_v (step g v e)) m l = statusAt (course_v v) m l)"
proof -
  from assms have q: "quiz_v v = JArr []" and ns: "\<not> quizSubmitted v" and st: "settled v"
    and others: "\<And>m l. (m, l) \<noteq> (currentModuleIndex (course_v v), currentLessonIndex (course_v v))
                   \<Longrightarrow> statusAt (course_v v) m l = None \<or> statusAt (course_v v) m l = Some Locked"
    by (auto simp: blocked_def)
  have same: ?thesis if "step g v e = v"
    using that assms by simp
  show ?thesis
  proof (cases e)
    case (SelectLesson m l)
    show ?thesis
    proof (cases "lessonButton v m l")
      case False
      with SelectLesson show ?thesis by (intro same) simp
    next
      case True
      then obtain x where x: "lessonAt (modules (course_v v)) m l = Some x"
        and open_x: "status x \<noteq> Locked"
        by (auto simp: lessonButton_def split: option.splits)
      then have "statusAt (course_v v) m l \<noteq> None" "statusAt (course_v v) m l \<noteq> Some Locked"
        by (simp_all add: statusAt_def)
      with others [of m l] have cur: "m = currentModuleIndex (course_v v)"
        "l = currentLessonIndex (course_v v)"
        by auto
      have "handleLessonSelect (course_v v) m l = Inr (Some (course_v v))"
        using x open_x cur by (simp add: handleLessonSelect_def)
      moreover have "lessonEffect g v = v"
        using st by (simp add: lessonEffect_def settled_def)
      ultimately have "selectLesson g v m l = v"
        by (simp add: selectLesson_def)
      with SelectLesson True show ?thesis by (intro same) simp
    qed
  next
    case (ToggleModule m)
    with assms show ?thesis
      by (auto simp: blocked_def settled_def toggleModule_def)
  next
    case SkipToPractice
    show ?thesis
    proof (cases "viewStage v = READING")
      case False
      with SkipToPractice show ?thesis by (intro same) simp
    next
      case True
      let ?v' = "handleSkipToPractice v"
      have e: "step g v e = ?v'" using SkipToPractice True by simp
      have i: "currentModuleIndex (course_v ?v') = currentModuleIndex (course_v v)"
        "currentLessonIndex (course_v ?v') = currentLessonIndex (course_v v)"
        using handleSkipToPractice_course [of v 0 0] by simp_all
      have "quiz_v ?v' = JArr []" "\<not> quizSubmitted ?v'"
        using q ns by (simp_all add: handleSkipToPractice_def split: sum.splits)
      moreover have "settled ?v'" using st by (rule handleSkipToPractice_settled)
      ultimately have "blocked ?v'"
        using others i by (simp add: blocked_def handleSkipToPractice_other)
      with i show ?thesis
        unfolding e by (simp add: handleSkipToPractice_other)
    qed
  next
    case GoToPractice
    with assms show ?thesis by (auto simp: blocked_def settled_def)
  next
    case BackToReading
    with assms show ?thesis by (auto simp: blocked_def settled_def)
  next
    case ChallengesDone
    with assms show ?thesis by (auto simp: blocked_def settled_def)
  next
    case BackToChallenge
    with assms show ?thesis by (auto simp: blocked_def settled_def)
  next
    case (QuizAnswer qi opt)
    have "\<not> quizButton v qi opt" using q by (simp add: quizButton_def)
    with QuizAnswer show ?thesis by (intro same) simp
  next
    case SubmitQuiz
    have "\<not> isAllAnswered v" using q by (simp add: isAllAnswered_def)
    with SubmitQuiz show ?thesis by (intro same) simp
  next
    case NextLesson
    with ns show ?thesis by (intro same) simp
  qed
qed

lemma blocked_run:
  assumes "blocked v"
  shows "blocked (run g v es) \<and>
         currentModuleIndex (course_v (run g v es)) = currentModuleIndex (course_v v) \<and>
         currentLessonIndex (course_v (run g v es)) = currentLessonIndex (course_v v) \<and>
         (\<forall>m l. (m, l) \<noteq> (currentModuleIndex (course_v v), currentLessonIndex (course_v v)) \<longrightarrow>
                statusAt (course_v (run g v es)) m l = statusAt (course_v v) m l)"
  using assms
proof (induction es arbitrary: v)
  case Nil
  then show ?case by simp
next
  case (Cons e es)
  from blocked_step [OF Cons.prems, of g e] Cons.IH [of "step g v e"] show ?case
    by simp
qed

lemma statusAt_statuses:
  "statusAt c m l =
     (if m < length (statuses c) \<and> l < length (statuses c ! m) then Some (statuses c ! m ! l)
      else None)"
  by (simp add: statusAt_def statuses_def lessonAt_def)

lemma example_view_no_quiz_blocked: "blocked example_view_no_quiz"
proof -
  have q: "quiz_v example_view_no_quiz = JArr []" "\<not> quizSubmitted example_view_no_quiz"
    "settled example_view_no_quiz"
    by code_simp+
  have i: "currentModuleIndex (course_v example_view_no_quiz) = 0"
    "currentLessonIndex (course_v example_view_no_quiz) = 0"
    by code_simp+
  have s: "statuses (course_v example_view_no_quiz) = [[Unlocked, Locked]]"
    by code_simp
  have "statusAt (course_v example_view_no_quiz) m l = None \<or>
        statusAt (course_v example_view_no_quiz) m l = Some Locked"
    if "(m, l) \<noteq> (0, 0)" for m l
    using that by (cases l) (auto simp: statusAt_statuses s)
  with q i show ?thesis by (simp add: blocked_def)
qed

lemma generateQuiz_failure:
  "generateQuiz CallFailed = JArr [] \<and> generateQuiz Unparsable = JArr [] \<and>
   generateQuiz (Parsed JNull) = JArr []"
  by (simp add: generateQuiz_def)

text \<open>
  Claim C9.  The generation of the quiz of the first lesson fails, so the lesson's quiz
  is the empty list.  Whatever the user then does in the view, the quiz is never
  submitted, the button that submits it stays disabled and the second lesson stays
  locked; the first lesson can be marked completed by skipping it.
\<close>

theorem empty_quiz_blocks_progress:
  "quizReply example_gen_no_quiz = CallFailed \<and>
   quiz_v example_view_no_quiz = JArr [] \<and>
   \<not> isAllAnswered (run g example_view_no_quiz es) \<and>
   \<not> quizSubmitted (run g example_view_no_quiz es) \<and>
   statusAt (course_v (run g example_view_no_quiz es)) 0 1 = Some Locked \<and>
   statuses (course_v (run g example_view_no_quiz [SkipToPractice, ChallengesDone, SubmitQuiz])) =
     [[Completed, Locked]]"
proof -
  have r: "quizReply example_gen_no_quiz = CallFailed"
    by code_simp
  have i: "currentModuleIndex (course_v example_view_no_quiz) = 0"
    "currentLessonIndex (course_v example_view_no_quiz) = 0"
    by code_simp+
  have l: "statusAt (course_v example_view_no_quiz) 0 1 = Some Locked"
    by code_simp
  have sk: "statuses (course_v (run g example_view_no_quiz
              [SkipToPractice, ChallengesDone, SubmitQuiz])) = [[Completed, Locked]]"
    by code_simp
  from blocked_run [OF example_view_no_quiz_blocked, of g es]
  have b: "blocked (run g example_view_no_quiz es)"
    and s: "statusAt (course_v (run g example_view_no_quiz es)) 0 1 =
              statusAt (course_v example_view_no_quiz) 0 1"
    by (simp_all add: i)
  from b have "quiz_v (run g example_view_no_quiz es) = JArr []"
    and ns: "\<not> quizSubmitted (run g example_view_no_quiz es)"
    by (simp_all add: blocked_def)
  then have "\<not> isAllAnswered (run g example_view_no_quiz es)"
    by (simp add: isAllAnswered_def)
  with r example_view_no_quiz_blocked ns s l sk show ?thesis
    by (simp add: blocked_def)
qed

section \<open>The current lesson\<close>

lemma active_None_iff:
  "map_option lesson_id x = map_option lesson_id y \<Longrightarrow> (x = None) = (y = None)"
  by (metis option.map_disc_iff)

lemma activeLesson_newCourse: "activeLesson (newCourse now1 now2 tp ms) = lessonAt ms 0 0"
  by (simp add: activeLesson_def newCourse_def)

lemma mount_activeLesson:
  assumes "mount g c = Inr w"
  shows "activeLesson c \<noteq> None \<and> activeLesson (course_v w) \<noteq> None"
proof (cases "activeModule c")
  case None
  with assms show ?thesis by (simp add: mount_def)
next
  case am: (Some am)
  show ?thesis
  proof (cases "activeLesson c")
    case None
    with assms am show ?thesis by (simp add: mount_def)
  next
    case (Some al)
    with assms am
    have w: "w = loadLesson g al (initialView c (module_id am)) \<or> w = initialView c (module_id am)"
      by (auto simp: mount_def split: if_splits)
    have "map_option lesson_id (activeLesson (course_v w)) = map_option lesson_id (activeLesson c)"
      using w by (auto simp: initialView_def)
    from active_None_iff [OF this] Some show ?thesis by simp
  qed
qed

lemma expandedCourse_activeLesson:
  assumes "activeLesson c \<noteq> None" and "expandedCourse c r = Inr c'"
  shows "activeLesson c' = activeLesson c"
proof -
  from assms(2) obtain new where c': "c' = c\<lparr> modules := modules c @ new \<rparr>"
    by (auto simp: expandedCourse_def split: sum.splits)
  from assms(1) have "currentModuleIndex c < length (modules c)"
    by (auto simp: activeLesson_def lessonAt_def split: if_splits)
  then show ?thesis
    by (simp add: c' activeLesson_def lessonAt_def nth_append)
qed

lemma selectLesson_keeps_active:
  assumes "activeLesson (course_v v) \<noteq> None"
  shows "activeLesson (course_v (selectLesson g v m l)) \<noteq> None"
proof (cases "handleLessonSelect (course_v v) m l")
  case (Inl e)
  with assms show ?thesis by (simp add: selectLesson_def)
next
  case (Inr oc)
  show ?thesis
  proof (cases oc)
    case None
    with Inr assms show ?thesis by (simp add: selectLesson_def)
  next
    case (Some c)
    with Inr obtain t where "lessonAt (modules (course_v v)) m l = Some t"
      and "c = (course_v v)\<lparr> currentModuleIndex := m, currentLessonIndex := l \<rparr>"
      by (auto simp: handleLessonSelect_def split: option.splits if_splits)
    then have "activeLesson c \<noteq> None" by (simp add: activeLesson_def)
    with Inr Some show ?thesis by (simp add: selectLesson_def)
  qed
qed

lemma handleSkipToPractice_keeps_active:
  "(activeLesson (course_v (handleSkipToPractice v)) = None) = (activeLesson (course_v v) = None)"
proof (cases "markLessonCompleted (course_v v)")
  case (Inl e)
  then show ?thesis by (simp add: handleSkipToPractice_def)
next
  case (Inr c)
  from active_None_iff [OF markLessonCompleted_active_id [OF Inr]] Inr show ?thesis
    by (simp add: handleSkipToPractice_def)
qed

lemma submitQuiz_keeps_active:
  "(activeLesson (course_v (submitQuiz v)) = None) = (activeLesson (course_v v) = None)"
proof (cases "submitQuiz_course (course_v v)")
  case (Inl e)
  then show ?thesis by (simp add: submitQuiz_def)
next
  case (Inr c)
  from active_None_iff [OF submitQuiz_course_active_id [OF Inr]] Inr show ?thesis
    by (simp add: submitQuiz_def Let_def split: prod.splits)
qed

lemma moveToNextLesson_keeps_active:
  assumes "activeLesson (course_v v) \<noteq> None"
    and "length (modules (course_v v))
           \<le> fst (nextPosition (modules (course_v v)) (currentModuleIndex (course_v v))
                    (currentLessonIndex (course_v v))) \<or>
         lessonAt (modules (course_v v))
           (fst (nextPosition (modules (course_v v)) (currentModuleIndex (course_v v))
                    (currentLessonIndex (course_v v))))
           (snd (nextPosition (modules (course_v v)) (currentModuleIndex (course_v v))
                    (currentLessonIndex (course_v v)))) \<noteq> None"
  shows "activeLesson (course_v (moveToNextLesson g v)) \<noteq> None"
proof (cases "moveToNextLesson_course (course_v v)")
  case (Inl e)
  with assms(1) show ?thesis by (simp add: moveToNextLesson_def)
next
  case (Inr oc)
  show ?thesis
  proof (cases oc)
    case None
    with Inr assms(1) show ?thesis by (simp add: moveToNextLesson_def)
  next
    case (Some c)
    obtain nm nl where np: "nextPosition (modules (course_v v)) (currentModuleIndex (course_v v))
                              (currentLessonIndex (course_v v)) = (nm, nl)"
      by (cases "nextPosition (modules (course_v v)) (currentModuleIndex (course_v v))
                   (currentLessonIndex (course_v v))")
    from Inr Some np have lt: "nm < length (modules (course_v v))"
      and c: "c = (course_v v)\<lparr> currentModuleIndex := nm, currentLessonIndex := nl \<rparr>"
      by (auto simp: moveToNextLesson_course_def split: option.splits if_splits)
    from assms(2) np lt have "lessonAt (modules (course_v v)) nm nl \<noteq> None" by simp
    then have "activeLesson c \<noteq> None" by (simp add: c activeLesson_def)
    with Inr Some show ?thesis by (simp add: moveToNextLesson_def)
  qed
qed

lemma step_keeps_active:
  assumes "activeLesson (course_v v) \<noteq> None"
    and "e = NextLesson \<longrightarrow>
         length (modules (course_v v))
           \<le> fst (nextPosition (modules (course_v v)) (currentModuleIndex (course_v v))
                    (currentLessonIndex (course_v v))) \<or>
         lessonAt (modules (course_v v))
           (fst (nextPosition (modules (course_v v)) (currentModuleIndex (course_v v))
                    (currentLessonIndex (course_v v))))
           (snd (nextPosition (modules (course_v v)) (currentModuleIndex (course_v v))
                    (currentLessonIndex (course_v v)))) \<noteq> None"
  shows "activeLesson (course_v (step g v e)) \<noteq> None"
proof (cases e)
  case (SelectLesson m l)
  from selectLesson_keeps_active [OF assms(1), of g m l] assms(1) show ?thesis
    unfolding SelectLesson by (cases "lessonButton v m l") simp_all
next
  case (ToggleModule m)
  with assms(1) show ?thesis by (simp add: toggleModule_def)
next
  case SkipToPractice
  from assms(1) handleSkipToPractice_keeps_active [of v]
  have "activeLesson (course_v (handleSkipToPractice v)) \<noteq> None" by simp
  with assms(1) show ?thesis
    unfolding SkipToPractice by auto
next
  case GoToPractice
  with assms(1) show ?thesis by simp
next
  case BackToReading
  with assms(1) show ?thesis by simp
next
  case ChallengesDone
  with assms(1) show ?thesis by simp
next
  case BackToChallenge
  with assms(1) show ?thesis by simp
next
  case (QuizAnswer q opt)
  with assms(1) show ?thesis by (simp add: handleQuizAnswer_def)
next
  case SubmitQuiz
  from assms(1) submitQuiz_keeps_active [of v]
  have "activeLesson (course_v (submitQuiz v)) \<noteq> None" by simp
  with assms(1) show ?thesis
    unfolding SubmitQuiz by auto
next
  case NextLesson
  from moveToNextLesson_keeps_active [OF assms(1), of g] assms show ?thesis
    unfolding NextLesson by (cases "viewStage v = QUIZ \<and> quizSubmitted v") simp_all
qed

lemma selectLesson_cases:
  "(lessonAt (modules (course_v v)) m l = None \<longrightarrow> selectLesson g v m l = v) \<and>
   (lessonAt (modules (course_v v)) m l = Some t \<and> status t = Locked \<longrightarrow>
      selectLesson g v m l = v) \<and>
   (lessonAt (modules (course_v v)) m l = Some t \<and> status t \<noteq> Locked \<longrightarrow>
      currentModuleIndex (course_v (selectLesson g v m l)) = m \<and>
      currentLessonIndex (course_v (selectLesson g v m l)) = l \<and>
      activeLesson (course_v (selectLesson g v m l)) \<noteq> None \<and>
      viewStage (selectLesson g v m l) =
        (if Some (lesson_id t) = lessonDep v then viewStage v else READING)) \<and>
   (activeLesson (course_v v) \<noteq> None \<longrightarrow> activeLesson (course_v (selectLesson g v m l)) \<noteq> None)"
proof -
  have none: "selectLesson g v m l = v" if "lessonAt (modules (course_v v)) m l = None"
    using that by (simp add: selectLesson_def handleLessonSelect_def)
  have locked: "selectLesson g v m l = v"
    if "lessonAt (modules (course_v v)) m l = Some t" and "status t = Locked"
    using that by (simp add: selectLesson_def handleLessonSelect_def)
  have open_lesson:
    "currentModuleIndex (course_v (selectLesson g v m l)) = m \<and>
     currentLessonIndex (course_v (selectLesson g v m l)) = l \<and>
     activeLesson (course_v (selectLesson g v m l)) \<noteq> None \<and>
     viewStage (selectLesson g v m l) =
       (if Some (lesson_id t) = lessonDep v then viewStage v else READING)"
    if t: "lessonAt (modules (course_v v)) m l = Some t" and st: "status t \<noteq> Locked"
  proof -
    let ?c = "(course_v v)\<lparr> currentModuleIndex := m, currentLessonIndex := l \<rparr>"
    let ?v = "v\<lparr> course_v := ?c \<rparr>"
    have sel: "selectLesson g v m l = lessonEffect g ?v"
      using t st by (simp add: selectLesson_def handleLessonSelect_def)
    have act: "activeLesson (course_v ?v) = Some t"
      using t by (simp add: activeLesson_def)
    have "activeLesson (course_v (lessonEffect g ?v)) \<noteq> None"
      using act by simp
    moreover have "viewStage (lessonEffect g ?v) =
        (if Some (lesson_id t) = lessonDep v then viewStage v else READING)"
      using lessonEffect_viewStage [OF act st, of g] by simp
    ultimately show ?thesis
      by (simp add: sel)
  qed
  have keeps: "activeLesson (course_v (selectLesson g v m l)) \<noteq> None"
    if a: "activeLesson (course_v v) \<noteq> None"
  proof (cases "lessonAt (modules (course_v v)) m l")
    case None
    with none a show ?thesis by simp
  next
    case (Some x)
    show ?thesis
    proof (cases "status x = Locked")
      case True
      have "selectLesson g v m l = v"
        using Some True by (simp add: selectLesson_def handleLessonSelect_def)
      with a show ?thesis by simp
    next
      case False
      let ?c = "(course_v v)\<lparr> currentModuleIndex := m, currentLessonIndex := l \<rparr>"
      let ?v = "v\<lparr> course_v := ?c \<rparr>"
      have sel: "selectLesson g v m l = lessonEffect g ?v"
        using Some False by (simp add: selectLesson_def handleLessonSelect_def)
      have "activeLesson (course_v ?v) \<noteq> None"
        using Some by (simp add: activeLesson_def)
      then show ?thesis
        by (simp add: sel)
    qed
  qed
  from none locked open_lesson keeps show ?thesis by blast
qed


lemma handleLessonSelect_cases:
  "(lessonAt (modules c) m l = None \<longrightarrow> handleLessonSelect c m l = Inl TypeError) \<and>
   (lessonAt (modules c) m l = Some t \<and> status t = Locked \<longrightarrow>
      handleLessonSelect c m l = Inr None) \<and>
   (lessonAt (modules c) m l = Some t \<and> status t \<noteq> Locked \<longrightarrow>
      handleLessonSelect c m l =
        Inr (Some (c\<lparr> currentModuleIndex := m, currentLessonIndex := l \<rparr>)))"
  by (simp add: handleLessonSelect_def)

text \<open>
  Claim C4.  Selecting a position where there is no lesson throws a type error, and
  selecting a locked lesson returns without updating the course: either way the view is
  left exactly as it was.  Selecting a lesson that is not locked makes it the current one.
  The stage is reset to reading when the id of the selected lesson differs from that of
  the lesson the view has loaded; selecting the lesson already loaded leaves the stage as
  it is.  The current indices are one pair, so they address at most one lesson.  A new
  course has a current lesson exactly when its first module has a first lesson; the view
  is only shown for a course that has one; once there is a current lesson, there is one
  after every selection, after every action of the view other than going to the next
  lesson, after going to the next lesson when the next position holds a lesson or lies
  beyond the last module, and after an expansion of the course, which leaves the current
  lesson as it is.
\<close>

theorem select_lesson_effect:
  "(lessonAt (modules (course_v v)) m l = None \<longrightarrow>
      handleLessonSelect (course_v v) m l = Inl TypeError \<and> selectLesson g v m l = v) \<and>
   (lessonAt (modules (course_v v)) m l = Some t \<and> status t = Locked \<longrightarrow>
      handleLessonSelect (course_v v) m l = Inr None \<and> selectLesson g v m l = v) \<and>
   (lessonAt (modules (course_v v)) m l = Some t \<and> status t \<noteq> Locked \<longrightarrow>
      handleLessonSelect (course_v v) m l =
        Inr (Some ((course_v v)\<lparr> currentModuleIndex := m, currentLessonIndex := l \<rparr>)) \<and>
      currentModuleIndex (course_v (selectLesson g v m l)) = m \<and>
      currentLessonIndex (course_v (selectLesson g v m l)) = l \<and>
      activeLesson (course_v (selectLesson g v m l)) \<noteq> None \<and>
      viewStage (selectLesson g v m l) =
        (if Some (lesson_id t) = lessonDep v then viewStage v else READING)) \<and>
   (activeLesson (course_v v) \<noteq> None \<longrightarrow> activeLesson (course_v (selectLesson g v m l)) \<noteq> None) \<and>
   activeLesson (newCourse now1 now2 tp ms) = lessonAt ms 0 0 \<and>
   (mount g c = Inr w \<longrightarrow> activeLesson c \<noteq> None \<and> activeLesson (course_v w) \<noteq> None) \<and>
   (activeLesson (course_v v) \<noteq> None \<and>
    (e = NextLesson \<longrightarrow>
       length (modules (course_v v))
         \<le> fst (nextPosition (modules (course_v v)) (currentModuleIndex (course_v v))
                  (currentLessonIndex (course_v v))) \<or>
       lessonAt (modules (course_v v))
         (fst (nextPosition (modules (course_v v)) (currentModuleIndex (course_v v))
                  (currentLessonIndex (course_v v))))
         (snd (nextPosition (modules (course_v v)) (currentModuleIndex (course_v v))
                  (currentLessonIndex (course_v v)))) \<noteq> None) \<longrightarrow>
      activeLesson (course_v (step g v e)) \<noteq> None) \<and>
   (activeLesson c \<noteq> None \<and> expandedCourse c r = Inr c' \<longrightarrow> activeLesson c' = activeLesson c)"
proof -
  note sel = selectLesson_cases [of v m l g t]
  note han = handleLessonSelect_cases [of "course_v v" m l t]
  note fresh = activeLesson_newCourse [of now1 now2 tp ms]
  have mounted: "activeLesson c \<noteq> None \<and> activeLesson (course_v w) \<noteq> None"
    if "mount g c = Inr w"
    using that by (rule mount_activeLesson)
  have stepped: "activeLesson (course_v (step g v e)) \<noteq> None"
    if "activeLesson (course_v v) \<noteq> None"
      and "e = NextLesson \<longrightarrow>
       length (modules (course_v v))
         \<le> fst (nextPosition (modules (course_v v)) (currentModuleIndex (course_v v))
                  (currentLessonIndex (course_v v))) \<or>
       lessonAt (modules (course_v v))
         (fst (nextPosition (modules (course_v v)) (currentModuleIndex (course_v v))
                  (currentLessonIndex (course_v v))))
         (snd (nextPosition (modules (course_v v)) (currentModuleIndex (course_v v))
                  (currentLessonIndex (course_v v)))) \<noteq> None"
    using that by (rule step_keeps_active)
  have expanded: "activeLesson c' = activeLesson c"
    if "activeLesson c \<noteq> None" and "expandedCourse c r = Inr c'"
    using that by (rule expandedCourse_activeLesson)
  from sel han fresh mounted stepped expanded show ?thesis
    by blast
qed

theorem select_lesson_effect_witness:
  "lessonAt (modules (course_v example_view_submitted)) 0 1 =
     Some (example_lesson 1 ''Matrices'' ''b'' Unlocked) \<and>
   status (example_lesson 1 ''Matrices'' ''b'' Unlocked) \<noteq> Locked \<and>
   viewStage example_view_submitted = QUIZ \<and>
   currentModuleIndex (course_v (selectLesson example_gen example_view_submitted 0 1)) = 0 \<and>
   currentLessonIndex (course_v (selectLesson example_gen example_view_submitted 0 1)) = 1 \<and>
   viewStage (selectLesson example_gen example_view_submitted 0 1) = READING \<and>
   activeLesson (course_v (selectLesson example_gen example_view_submitted 0 1)) \<noteq> None \<and>
   lessonAt (modules (course_v example_view_quiz)) 0 1 =
     Some (example_lesson 1 ''Matrices'' ''b'' Locked) \<and>
   selectLesson example_gen example_view_quiz 0 1 = example_view_quiz \<and>
   lessonAt (modules (course_v example_view_quiz)) 1 0 = None \<and>
   handleLessonSelect (course_v example_view_quiz) 1 0 = Inl TypeError \<and>
   selectLesson example_gen example_view_quiz 1 0 = example_view_quiz \<and>
   mount example_gen (example_course Unlocked Locked) = Inr example_view \<and>
   activeLesson (course_v example_view) \<noteq> None \<and>
   activeLesson (course_v example_view_submitted) \<noteq> None \<and>
   nextPosition (modules (course_v example_view_submitted)) 0 0 = (0, 1) \<and>
   activeLesson (course_v (step example_gen example_view_submitted NextLesson)) \<noteq> None \<and>
   activeLesson (example_course Completed Unlocked) \<noteq> None \<and>
   map_sum id activeLesson (expandedCourse (example_course Completed Unlocked) example_roadmap) =
     Inr (activeLesson (example_course Completed Unlocked))"
proof -
  have expanded_ok: "\<And>e. expandedCourse (example_course Completed Unlocked) example_roadmap \<noteq> Inl e"
    by code_simp
  let ?t = "example_lesson 1 ''Matrices'' ''b'' Unlocked"
  let ?u = "example_lesson 1 ''Matrices'' ''b'' Locked"
  have h: "lessonAt (modules (course_v example_view_submitted)) 0 1 = Some ?t"
    by code_simp
  have s: "status ?t \<noteq> Locked"
    by (simp add: example_lesson_def)
  have d: "Some (lesson_id ?t) \<noteq> lessonDep example_view_submitted"
    by code_simp
  have q: "viewStage example_view_submitted = QUIZ"
    by code_simp
  from select_lesson_effect [of example_view_submitted 0 1 example_gen ?t] h s d
  have unlocked:
    "currentModuleIndex (course_v (selectLesson example_gen example_view_submitted 0 1)) = 0 \<and>
     currentLessonIndex (course_v (selectLesson example_gen example_view_submitted 0 1)) = 1 \<and>
     viewStage (selectLesson example_gen example_view_submitted 0 1) = READING \<and>
     activeLesson (course_v (selectLesson example_gen example_view_submitted 0 1)) \<noteq> None"
    by simp
  have k: "lessonAt (modules (course_v example_view_quiz)) 0 1 = Some ?u"
    by code_simp
  have ks: "status ?u = Locked"
    by (simp add: example_lesson_def)
  from select_lesson_effect [of example_view_quiz 0 1 example_gen ?u] k ks
  have locked: "selectLesson example_gen example_view_quiz 0 1 = example_view_quiz"
    by blast
  have n: "lessonAt (modules (course_v example_view_quiz)) 1 0 = None"
    by code_simp
  from select_lesson_effect [of example_view_quiz 1 0 example_gen ?u] n
  have absent: "handleLessonSelect (course_v example_view_quiz) 1 0 = Inl TypeError \<and>
                selectLesson example_gen example_view_quiz 1 0 = example_view_quiz"
    by blast
  have mo: "mount example_gen (example_course Unlocked Locked) = Inr example_view"
    by code_simp
  from select_lesson_effect
         [of example_view 0 0 example_gen ?t _ _ _ _ "example_course Unlocked Locked" example_view]
       mo
  have mounted: "activeLesson (course_v example_view) \<noteq> None"
    by blast
  have a: "activeLesson (course_v example_view_submitted) \<noteq> None"
    by code_simp
  have np: "nextPosition (modules (course_v example_view_submitted)) 0 0 = (0, 1)"
    by code_simp
  have idx: "currentModuleIndex (course_v example_view_submitted) = 0"
    "currentLessonIndex (course_v example_view_submitted) = 0"
    by code_simp+
  have "length (modules (course_v example_view_submitted))
          \<le> fst (nextPosition (modules (course_v example_view_submitted))
                   (currentModuleIndex (course_v example_view_submitted))
                   (currentLessonIndex (course_v example_view_submitted))) \<or>
        lessonAt (modules (course_v example_view_submitted))
          (fst (nextPosition (modules (course_v example_view_submitted))
                   (currentModuleIndex (course_v example_view_submitted))
                   (currentLessonIndex (course_v example_view_submitted))))
          (snd (nextPosition (modules (course_v example_view_submitted))
                   (currentModuleIndex (course_v example_view_submitted))
                   (currentLessonIndex (course_v example_view_submitted)))) \<noteq> None"
    using h by (simp add: idx np)
  with select_lesson_effect [of example_view_submitted 0 1 example_gen ?t _ _ _ _ _ _ NextLesson] a
  have next_lesson:
    "activeLesson (course_v (step example_gen example_view_submitted NextLesson)) \<noteq> None"
    by blast
  let ?c = "example_course Completed Unlocked"
  have ac: "activeLesson ?c \<noteq> None"
    by code_simp
  obtain c' where c': "expandedCourse ?c example_roadmap = Inr c'"
    by (cases "expandedCourse ?c example_roadmap") (simp_all add: expanded_ok)
  from select_lesson_effect
         [of example_view 0 0 example_gen ?t _ _ _ _ ?c _ _ example_roadmap c'] ac c'
  have "activeLesson c' = activeLesson ?c"
    by blast
  with c' have expanded:
    "map_sum id activeLesson (expandedCourse ?c example_roadmap) = Inr (activeLesson ?c)"
    by simp
  from h s q unlocked k locked n absent mo mounted a np next_lesson ac expanded
  show ?thesis by blast
qed

text \<open>
  In the quiz of the first lesson, which is unlocked, selecting that lesson again in the
  sidebar leaves the view in the quiz.  In the course whose second module has no lessons,
  finishing the only lesson and going to the next lesson leaves the course without a
  current lesson.  The course made from a roadmap whose only module has no lessons has no
  current lesson from the start.
\<close>

theorem select_lesson_stage_counterexample:
  "statusAt (course_v example_view_quiz) 0 0 = Some Unlocked \<and>
   viewStage example_view_quiz = QUIZ \<and>
   viewStage (selectLesson example_gen example_view_quiz 0 0) \<noteq> READING \<and>
   step example_gen example_view_quiz (SelectLesson 0 0) = example_view_quiz \<and>
   roadmap_shape gap_roadmap \<and>
   map_sum id (newCourse 1 1 ''Linear Algebra'') (generateRoadmap gap_roadmap) = Inr gap_course \<and>
   mount example_gen gap_course = Inr gap_view \<and>
   activeLesson (course_v gap_view) \<noteq> None \<and>
   currentModuleIndex (course_v (run example_gen gap_view finish_and_next)) = 1 \<and>
   currentLessonIndex (course_v (run example_gen gap_view finish_and_next)) = 0 \<and>
   activeLesson (course_v (run example_gen gap_view finish_and_next)) = None \<and>
   roadmap_shape empty_module_roadmap \<and>
   map_sum id (\<lambda>ms. activeLesson (newCourse 1 1 ''Linear Algebra'' ms))
     (generateRoadmap empty_module_roadmap) = Inr None"
  by code_simp

end
